theory Spec2Isabelle
  imports Main "HOL-Library.Char_ord" "HOL-Library.List_Lexorder" "HOL-Library.AList"
begin

section \<open>JavaScript values\<close>

text \<open>
  The client handles untyped data (\<^verbatim>\<open>any\<close>): parameter values, request bodies and
  response bodies. They are modelled as JSON-like trees. A JavaScript string is a list
  of code units; the model has the code units 0..255 (\<^typ>\<open>char\<close>), compared by
  their codes as JavaScript compares strings. A number is an integer, printed in decimal
  digits. An object is an association list read through \<open>map_of\<close> (the first entry of
  a key is the property); values are trees, so two positions never share one mutable
  array.
\<close>

datatype jsval =
    JUndefined
  | JNull
  | JBool bool
  | JNum int
  | JStr string
  | JArr "jsval list"
  | JObj "(string \<times> jsval) list"

type_synonym jsobject = "(string \<times> jsval) list"

definition Object_keys :: "jsobject \<Rightarrow> string list" where
  \<comment> \<open>\<^verbatim>\<open>Object.keys(o)\<close>: every own key once\<close>
  "Object_keys obj = remdups (map fst obj)"

definition get_prop :: "jsobject \<Rightarrow> string \<Rightarrow> jsval" where
  \<comment> \<open>\<^verbatim>\<open>o[k]\<close>: \<^verbatim>\<open>undefined\<close> for a missing key\<close>
  "get_prop obj k = (case map_of obj k of None \<Rightarrow> JUndefined | Some v \<Rightarrow> v)"

definition set_prop :: "jsobject \<Rightarrow> string \<Rightarrow> jsval \<Rightarrow> jsobject" where
  \<comment> \<open>\<^verbatim>\<open>o[k] = v\<close>: an existing key keeps its place, a new key comes last\<close>
  "set_prop obj k v = AList.update k v obj"

definition nullish :: "jsval \<Rightarrow> bool" where
  \<comment> \<open>the values \<^verbatim>\<open>??\<close> replaces\<close>
  "nullish v = (v = JUndefined \<or> v = JNull)"

fun show_nat :: "nat \<Rightarrow> string" where
  "show_nat n =
     (if n < 10 then [char_of (48 + n)]
      else show_nat (n div 10) @ [char_of (48 + n mod 10)])"

declare show_nat.simps [simp del]

definition show_int :: "int \<Rightarrow> string" where
  "show_int i = (if i < 0 then CHR ''-'' # show_nat (nat (- i)) else show_nat (nat i))"

fun intersperse :: "'a list \<Rightarrow> 'a list list \<Rightarrow> 'a list" where
  "intersperse sep [] = []"
| "intersperse sep [x] = x"
| "intersperse sep (x # y # ys) = x @ sep @ intersperse sep (y # ys)"

fun ToString :: "jsval \<Rightarrow> string"
  and join_item :: "jsval \<Rightarrow> string" where
  \<comment> \<open>\<^verbatim>\<open>String(v)\<close>, as a template literal and \<^verbatim>\<open>encodeURIComponent\<close> convert their
      argument; \<open>join_item\<close> is the conversion \<^verbatim>\<open>Array.prototype.join\<close> applies to an
      element (\<^verbatim>\<open>null\<close> and \<^verbatim>\<open>undefined\<close> give the empty string)\<close>
  "ToString JUndefined = ''undefined''"
| "ToString JNull = ''null''"
| "ToString (JBool b) = (if b then ''true'' else ''false'')"
| "ToString (JNum i) = show_int i"
| "ToString (JStr s) = s"
| "ToString (JArr xs) = intersperse '','' (map join_item xs)"
| "ToString (JObj kvs) = ''[object Object]''"
| "join_item v = (if v = JUndefined \<or> v = JNull then [] else ToString v)"

section \<open>Parameter normalization and merge (utils.ts)\<close>

subsection \<open>Node's \<^verbatim>\<open>querystring.parse\<close>\<close>

text \<open>
  \<^verbatim>\<open>normalizeRequestParams\<close> hands a string to \<^verbatim>\<open>querystring.parse(str)\<close> of the Node
  runtime, with its defaults: the separator \<^verbatim>\<open>&\<close>, the assignment \<^verbatim>\<open>=\<close>, at most 1000
  pairs (\<^verbatim>\<open>maxKeys\<close>), \<^verbatim>\<open>+\<close> read as a space, and percent-decoding by
  \<^verbatim>\<open>querystring.unescape\<close> of a key or value that holds an escape \<^verbatim>\<open>%hh\<close>. The decoder
  itself is a parameter \<open>unescape\<close> of the model. A key met again collects its values in
  an array.
\<close>

fun split_on :: "char \<Rightarrow> string \<Rightarrow> string list" where
  "split_on c [] = [[]]"
| "split_on c (x # xs) =
     (if x = c then [] # split_on c xs
      else (case split_on c xs of [] \<Rightarrow> [[x]] | y # ys \<Rightarrow> (x # y) # ys))"

definition isHex :: "char \<Rightarrow> bool" where
  "isHex c = (let n = (of_char c :: nat) in
     (48 \<le> n \<and> n \<le> 57) \<or> (65 \<le> n \<and> n \<le> 70) \<or> (97 \<le> n \<and> n \<le> 102))"

fun has_escape :: "string \<Rightarrow> bool" where
  "has_escape (a # b # c # rest) =
     ((a = CHR ''%'' \<and> isHex b \<and> isHex c) \<or> has_escape (b # c # rest))"
| "has_escape _ = False"

definition decodeStr :: "(string \<Rightarrow> string) \<Rightarrow> string \<Rightarrow> string" where
  "decodeStr unescape s =
     (let p = map (\<lambda>c. if c = CHR ''+'' then CHR '' '' else c) s
      in if has_escape p then unescape p else p)"

definition addKeyValue :: "jsobject \<Rightarrow> string \<Rightarrow> string \<Rightarrow> jsobject" where
  "addKeyValue obj k v =
     (case map_of obj k of
        None \<Rightarrow> obj @ [(k, JStr v)]
      | Some cur \<Rightarrow>
          set_prop obj k
            (case cur of JArr xs \<Rightarrow> JArr (xs @ [JStr v]) | _ \<Rightarrow> JArr [cur, JStr v]))"

definition parse_segment :: "(string \<Rightarrow> string) \<Rightarrow> jsobject \<Rightarrow> string \<Rightarrow> jsobject" where
  "parse_segment unescape obj seg =
     (if seg = [] then obj
      else addKeyValue obj
             (decodeStr unescape (takeWhile (\<lambda>c. c \<noteq> CHR ''='') seg))
             (decodeStr unescape (drop 1 (dropWhile (\<lambda>c. c \<noteq> CHR ''='') seg))))"

definition maxKeys :: nat where
  "maxKeys = 1000"

definition querystring_parse :: "(string \<Rightarrow> string) \<Rightarrow> string \<Rightarrow> jsobject" where
  "querystring_parse unescape qs =
     foldl (parse_segment unescape) [] (take maxKeys (split_on CHR ''&'' qs))"

text \<open>
  For stating what a repeated key gives: the key and value of each non-empty segment
  that is parsed, in the order of the text; the values a key has there; and what an
  object holds for a key with these values.
\<close>

definition segment_pair :: "(string \<Rightarrow> string) \<Rightarrow> string \<Rightarrow> string \<times> string" where
  "segment_pair unescape seg =
     (decodeStr unescape (takeWhile (\<lambda>c. c \<noteq> CHR ''='') seg),
      decodeStr unescape (drop 1 (dropWhile (\<lambda>c. c \<noteq> CHR ''='') seg)))"

definition textual_pairs :: "(string \<Rightarrow> string) \<Rightarrow> string \<Rightarrow> (string \<times> string) list" where
  "textual_pairs unescape s =
     map (segment_pair unescape)
       (filter (\<lambda>seg. seg \<noteq> []) (take maxKeys (split_on CHR ''&'' s)))"

definition values_of :: "string \<Rightarrow> (string \<times> string) list \<Rightarrow> string list" where
  "values_of k ps = map snd (filter (\<lambda>p. fst p = k) ps)"

fun held :: "string list \<Rightarrow> jsval option" where
  "held [] = None"
| "held [v] = Some (JStr v)"
| "held vs = Some (JArr (map JStr vs))"

definition add_pair :: "jsobject \<Rightarrow> string \<times> string \<Rightarrow> jsobject" where
  "add_pair obj p = addKeyValue obj (fst p) (snd p)"

subsection \<open>normalizeRequestParams\<close>

text \<open>
  \<^verbatim>\<open>ZentaoRequestParams\<close> is a string, an array whose elements are pairs or bare strings,
  a plain object, or absent. A pair is \<^verbatim>\<open>[name, value]\<close> with a string name.
\<close>

type_synonym ZentaoRequestParamPair = "string \<times> jsval"

datatype param_item = Bare string | Pair string jsval

datatype ZentaoRequestParams =
    PUndefined
  | PString string
  | PArray "param_item list"
  | PRecord jsobject

definition object_pairs :: "jsobject \<Rightarrow> ZentaoRequestParamPair list" where
  \<comment> \<open>\<^verbatim>\<open>for (const key of Object.keys(params).sort()) push([key, params[key]])\<close>\<close>
  "object_pairs obj = map (\<lambda>k. (k, get_prop obj k)) (sort (Object_keys obj))"

fun item_pair :: "param_item \<Rightarrow> ZentaoRequestParamPair" where
  "item_pair (Bare s) = ([], JStr s)"
| "item_pair (Pair k v) = (k, v)"

fun normalizeRequestParams ::
  "(string \<Rightarrow> string) \<Rightarrow> ZentaoRequestParams \<Rightarrow> ZentaoRequestParamPair list" where
  "normalizeRequestParams unescape PUndefined = []"
| "normalizeRequestParams unescape (PString s) = object_pairs (querystring_parse unescape s)"
| "normalizeRequestParams unescape (PArray items) = map item_pair items"
| "normalizeRequestParams unescape (PRecord obj) = object_pairs obj"

subsection \<open>mergeRequestParams\<close>

fun combine_exists :: "string \<Rightarrow> jsval \<Rightarrow> ZentaoRequestParamPair list \<Rightarrow> ZentaoRequestParamPair list" where
  \<comment> \<open>the update of \<^verbatim>\<open>existsParam\<close>, the first pair \<^verbatim>\<open>find\<close> returns for the key\<close>
  "combine_exists k v [] = []"
| "combine_exists k v (x # xs) =
     (if fst x = k
      then (fst x, (case snd x of JArr ys \<Rightarrow> JArr (ys @ [v]) | _ \<Rightarrow> JArr [snd x, v])) # xs
      else x # combine_exists k v xs)"

definition merge_param ::
  "ZentaoRequestParamPair list \<Rightarrow> ZentaoRequestParamPair \<Rightarrow> ZentaoRequestParamPair list" where
  "merge_param normalizedParams param =
     (if fst param \<noteq> [] \<and> List.find (\<lambda>x. fst x = fst param) normalizedParams \<noteq> None
      then combine_exists (fst param) (snd param) normalizedParams
      else normalizedParams @ [param])"

definition mergeRequestParams ::
  "(string \<Rightarrow> string) \<Rightarrow> ZentaoRequestParams \<Rightarrow> ZentaoRequestParams list
     \<Rightarrow> ZentaoRequestParamPair list" where
  "mergeRequestParams unescape params otherParams =
     foldl (\<lambda>normalizedParams otherParam.
              foldl merge_param normalizedParams (normalizeRequestParams unescape otherParam))
       (normalizeRequestParams unescape params) otherParams"

text \<open>
  The collision rule in the words of the specification: an existing array value takes the
  new value at its end, any other existing value becomes the first of a two-element array.
\<close>

definition combined :: "jsval \<Rightarrow> jsval \<Rightarrow> jsval" where
  "combined existing v =
     (case existing of JArr xs \<Rightarrow> JArr (xs @ [v]) | _ \<Rightarrow> JArr [existing, v])"

section \<open>Server configuration (zentao-config.ts)\<close>

text \<open>
  The constructor of \<^verbatim>\<open>ZentaoConfig\<close> reads a record of the server (the handshake
  response, or the snapshot kept in the local store). The model gives each key the type
  the class declares for its field; an absent key (or \<^verbatim>\<open>null\<close>, which \<^verbatim>\<open>??\<close> treats
  alike) is \<open>None\<close>. \<^verbatim>\<open>expiredTime\<close> comes as a number or as a string. Times are
  integers: milliseconds for \<^verbatim>\<open>Date.now()\<close>, seconds for \<^verbatim>\<open>expiredTime\<close>. A number field
  that is \<^verbatim>\<open>undefined\<close> or \<^verbatim>\<open>NaN\<close> is \<open>None\<close>: both make every comparison false.
\<close>

datatype ZentaoRequestType = GET | PATH_INFO

datatype num_or_str = NumVal int | StrVal string

record config_payload =
  p_version :: "string option"
  p_requestType :: "string option"
  p_requestFix :: "string option"
  p_moduleVar :: "string option"
  p_methodVar :: "string option"
  p_viewVar :: "string option"
  p_sessionVar :: "string option"
  p_sessionName :: "string option"
  p_sessionID :: "string option"
  p_random :: "int option"
  p_serverTime :: "int option"
  p_expiredTime :: "num_or_str option"
  p_tokenUpdateTime :: "int option"
  p_token :: "string option"

record ZentaoConfig =
  version :: "string option"
  requestType :: ZentaoRequestType
  requestFix :: string
  moduleVar :: string
  methodVar :: string
  viewVar :: string
  sessionVar :: string
  sessionName :: string
  sessionID :: "string option"
  random_num :: "int option"
  expiredTime :: "int option"
  serverTime :: "int option"
  priv_createTime :: int
  priv_token :: "string option"
  priv_tokenUpdateTime :: "int option"

definition isWhiteSpace :: "char \<Rightarrow> bool" where
  "isWhiteSpace c = ((of_char c :: nat) \<in> {9, 10, 11, 12, 13, 32, 160})"

definition isDigit :: "char \<Rightarrow> bool" where
  "isDigit c = (let n = (of_char c :: nat) in 48 \<le> n \<and> n \<le> 57)"

definition digits_value :: "string \<Rightarrow> int" where
  "digits_value ds = foldl (\<lambda>a c. 10 * a + (int (of_char c) - 48)) 0 ds"

definition parseInt10 :: "string \<Rightarrow> int option" where
  \<comment> \<open>\<^verbatim>\<open>Number.parseInt(s, 10)\<close>; \<open>None\<close> is \<^verbatim>\<open>NaN\<close>\<close>
  "parseInt10 s =
     (let t = dropWhile isWhiteSpace s;
          neg = (case t of [] \<Rightarrow> False | c # _ \<Rightarrow> c = CHR ''-'');
          r = (case t of [] \<Rightarrow> [] | c # cs \<Rightarrow> if c = CHR ''-'' \<or> c = CHR ''+'' then cs else t);
          ds = takeWhile isDigit r
      in if ds = [] then None
         else Some (if neg then - digits_value ds else digits_value ds))"

definition or_default :: "'a option \<Rightarrow> 'a \<Rightarrow> 'a" where
  \<comment> \<open>\<^verbatim>\<open>x ?? d\<close>\<close>
  "or_default x d = (case x of None \<Rightarrow> d | Some v \<Rightarrow> v)"

definition ZentaoConfig_new :: "config_payload \<Rightarrow> int \<Rightarrow> ZentaoConfig" where
  \<comment> \<open>\<^verbatim>\<open>new ZentaoConfig(config)\<close>; the second argument is the \<^verbatim>\<open>Date.now()\<close> it reads\<close>
  "ZentaoConfig_new config now =
     \<lparr> version = p_version config,
       requestType = (if p_requestType config = Some ''GET'' then GET else PATH_INFO),
       requestFix = or_default (p_requestFix config) ''-'',
       moduleVar = or_default (p_moduleVar config) ''m'',
       methodVar = or_default (p_methodVar config) ''f'',
       viewVar = or_default (p_viewVar config) ''t'',
       sessionVar = or_default (p_sessionVar config) ''zentaosid'',
       sessionName = or_default (p_sessionName config) (''zentaosid'' @ [CHR 0x22]),
       sessionID = p_sessionID config,
       random_num = p_random config,
       expiredTime =
         (case p_expiredTime config of
            None \<Rightarrow> None
          | Some (StrVal s) \<Rightarrow> parseInt10 s
          | Some (NumVal n) \<Rightarrow> Some n),
       serverTime = p_serverTime config,
       priv_createTime = now,
       priv_token = p_token config,
       priv_tokenUpdateTime = p_tokenUpdateTime config \<rparr>"

definition token :: "ZentaoConfig \<Rightarrow> string" where
  "token c = or_default (priv_token c) []"

definition tokenAuth :: "ZentaoConfig \<Rightarrow> string" where
  "tokenAuth c = sessionName c @ ''='' @ or_default (sessionID c) []"

definition renewToken :: "ZentaoConfig \<Rightarrow> int \<Rightarrow> ZentaoConfig" where
  \<comment> \<open>the second argument is the \<^verbatim>\<open>Date.now()\<close> it reads\<close>
  "renewToken c now = c\<lparr> priv_token := Some (tokenAuth c), priv_tokenUpdateTime := Some now \<rparr>"

definition isTokenExpired :: "ZentaoConfig \<Rightarrow> int \<Rightarrow> bool" where
  \<comment> \<open>the second argument is the \<^verbatim>\<open>Date.now()\<close> it reads when the update time is truthy\<close>
  "isTokenExpired c now =
     (case priv_tokenUpdateTime c of
        None \<Rightarrow> True
      | Some t \<Rightarrow>
          if t = 0 then True
          else (case expiredTime c of
                  None \<Rightarrow> False
                | Some e \<Rightarrow> now - t \<ge> (e - 30) * 1000))"

definition serialize :: "ZentaoConfig \<Rightarrow> config_payload" where
  \<comment> \<open>what the store keeps of a config and hands back: the fields the constructor reads\<close>
  "serialize c =
     \<lparr> p_version = version c,
       p_requestType = Some (case requestType c of GET \<Rightarrow> ''GET'' | PATH_INFO \<Rightarrow> ''PATH_INFO''),
       p_requestFix = Some (requestFix c),
       p_moduleVar = Some (moduleVar c),
       p_methodVar = Some (methodVar c),
       p_viewVar = Some (viewVar c),
       p_sessionVar = Some (sessionVar c),
       p_sessionName = Some (sessionName c),
       p_sessionID = sessionID c,
       p_random = random_num c,
       p_serverTime = serverTime c,
       p_expiredTime = map_option NumVal (expiredTime c),
       p_tokenUpdateTime = priv_tokenUpdateTime c,
       p_token = priv_token c \<rparr>"

definition demo_payload :: config_payload where
  \<comment> \<open>the handshake record of the constructor's documentation\<close>
  "demo_payload =
     \<lparr> p_version = Some ''pro9.0.3'', p_requestType = Some ''PATH_INFO'',
       p_requestFix = Some ''-'', p_moduleVar = Some ''m'', p_methodVar = Some ''f'',
       p_viewVar = Some ''t'', p_sessionVar = Some ''zentaosid'',
       p_sessionName = Some ''zentaosid'',
       p_sessionID = Some ''6fudr187np6d82rj23srkqt1r6'', p_random = Some 5337,
       p_serverTime = Some 1615098427, p_expiredTime = Some (StrVal ''1440''),
       p_tokenUpdateTime = None, p_token = None \<rparr>"

text \<open>
  The life of a config: built from a handshake record that carries no token of its own,
  renewed after a login, written to the store and read back by a later instance.
\<close>

inductive lifecycle :: "ZentaoConfig \<Rightarrow> bool" where
  handshake: "p_token config = None \<Longrightarrow> lifecycle (ZentaoConfig_new config now)"
| renewed: "lifecycle c \<Longrightarrow> lifecycle (renewToken c now)"
| restored: "lifecycle c \<Longrightarrow> lifecycle (ZentaoConfig_new (serialize c) now)"

section \<open>The runtime's \<^verbatim>\<open>JSON.parse\<close>\<close>

text \<open>
  \<^verbatim>\<open>request\<close> decodes a string \<^verbatim>\<open>data\<close> field with \<^verbatim>\<open>JSON.parse\<close>, which throws a
  \<^verbatim>\<open>SyntaxError\<close> on a text that is not JSON. The model reads the JSON grammar in two
  passes over the text, a scanner and a stack machine, and answers \<open>Unmodelled\<close> where
  the text leaves the value model: a number with a fraction or an exponent, a
  \<^verbatim>\<open>\u\<close> escape.
\<close>

datatype json_token =
    TLBrace | TRBrace | TLBracket | TRBracket | TColon | TComma
  | TString string | TNumber int | TTrue | TFalse | TNull

datatype lex_mode =
    Idle
  | InString string
  | InEscape string
  | InNumber bool string
  | InWord string json_token

datatype lex_status = Lexing lex_mode "json_token list" | LexMalformed | LexUnmodelled

definition number_ok :: "string \<Rightarrow> bool" where
  \<comment> \<open>the digits of a JSON integer: at least one, no leading zero before another digit\<close>
  "number_ok ds = (ds \<noteq> [] \<and> (length ds > 1 \<longrightarrow> hd ds \<noteq> CHR ''0''))"

definition number_token :: "bool \<Rightarrow> string \<Rightarrow> json_token" where
  "number_token neg ds = TNumber (if neg then - digits_value ds else digits_value ds)"

definition lex_idle :: "json_token list \<Rightarrow> char \<Rightarrow> lex_status" where
  "lex_idle toks c =
     (if c = CHR '' '' \<or> c = CHR 0x09 \<or> c = CHR 0x0A \<or> c = CHR 0x0D then Lexing Idle toks
      else if c = CHR ''{'' then Lexing Idle (toks @ [TLBrace])
      else if c = CHR ''}'' then Lexing Idle (toks @ [TRBrace])
      else if c = CHR ''['' then Lexing Idle (toks @ [TLBracket])
      else if c = CHR '']'' then Lexing Idle (toks @ [TRBracket])
      else if c = CHR '':'' then Lexing Idle (toks @ [TColon])
      else if c = CHR '','' then Lexing Idle (toks @ [TComma])
      else if c = CHR 0x22 then Lexing (InString []) toks
      else if c = CHR ''-'' then Lexing (InNumber True []) toks
      else if isDigit c then Lexing (InNumber False [c]) toks
      else if c = CHR ''t'' then Lexing (InWord ''rue'' TTrue) toks
      else if c = CHR ''f'' then Lexing (InWord ''alse'' TFalse) toks
      else if c = CHR ''n'' then Lexing (InWord ''ull'' TNull) toks
      else LexMalformed)"

definition lex_escape :: "string \<Rightarrow> json_token list \<Rightarrow> char \<Rightarrow> lex_status" where
  "lex_escape acc toks c =
     (if c = CHR 0x22 \<or> c = CHR 0x5C \<or> c = CHR ''/'' then Lexing (InString (acc @ [c])) toks
      else if c = CHR ''b'' then Lexing (InString (acc @ [CHR 0x08])) toks
      else if c = CHR ''f'' then Lexing (InString (acc @ [CHR 0x0C])) toks
      else if c = CHR ''n'' then Lexing (InString (acc @ [CHR 0x0A])) toks
      else if c = CHR ''r'' then Lexing (InString (acc @ [CHR 0x0D])) toks
      else if c = CHR ''t'' then Lexing (InString (acc @ [CHR 0x09])) toks
      else if c = CHR ''u'' then LexUnmodelled
      else LexMalformed)"

fun lex_step :: "lex_status \<Rightarrow> char \<Rightarrow> lex_status" where
  "lex_step (Lexing Idle toks) c = lex_idle toks c"
| "lex_step (Lexing (InString acc) toks) c =
     (if c = CHR 0x22 then Lexing Idle (toks @ [TString acc])
      else if c = CHR 0x5C then Lexing (InEscape acc) toks
      else if (of_char c :: nat) < 32 then LexMalformed
      else Lexing (InString (acc @ [c])) toks)"
| "lex_step (Lexing (InEscape acc) toks) c = lex_escape acc toks c"
| "lex_step (Lexing (InNumber neg ds) toks) c =
     (if isDigit c then Lexing (InNumber neg (ds @ [c])) toks
      else if \<not> number_ok ds then LexMalformed
      else if c = CHR ''.'' \<or> c = CHR ''e'' \<or> c = CHR ''E'' then LexUnmodelled
      else lex_idle (toks @ [number_token neg ds]) c)"
| "lex_step (Lexing (InWord rest tok) toks) c =
     (case rest of
        [] \<Rightarrow> LexMalformed
      | r # rs \<Rightarrow>
          if c \<noteq> r then LexMalformed
          else if rs = [] then Lexing Idle (toks @ [tok])
          else Lexing (InWord rs tok) toks)"
| "lex_step LexMalformed c = LexMalformed"
| "lex_step LexUnmodelled c = LexUnmodelled"

definition lex_finish :: "lex_status \<Rightarrow> lex_status" where
  \<comment> \<open>the end of the text: a number ends here, an open string or word is an error\<close>
  "lex_finish s =
     (case s of
        Lexing Idle toks \<Rightarrow> s
      | Lexing (InNumber neg ds) toks \<Rightarrow>
          if number_ok ds then Lexing Idle (toks @ [number_token neg ds]) else LexMalformed
      | Lexing _ toks \<Rightarrow> LexMalformed
      | _ \<Rightarrow> s)"

datatype frame = ArrFrame "jsval list" | ObjFrame jsobject "string option"

datatype expect =
  ExpValue | ExpValueOrEnd | ExpKeyOrEnd | ExpKey | ExpColon | ExpCommaOrEnd

datatype parse_status = Parsing "frame list" expect | Finished jsval | Bad

fun complete :: "jsval \<Rightarrow> frame list \<Rightarrow> parse_status" where
  \<comment> \<open>a value is read: it is the result, or goes into the innermost open container\<close>
  "complete v [] = Finished v"
| "complete v (ArrFrame xs # fs) = Parsing (ArrFrame (xs @ [v]) # fs) ExpCommaOrEnd"
| "complete v (ObjFrame kvs (Some k) # fs) =
     Parsing (ObjFrame (set_prop kvs k v) None # fs) ExpCommaOrEnd"
| "complete v (ObjFrame kvs None # fs) = Bad"

fun parse_value :: "frame list \<Rightarrow> bool \<Rightarrow> json_token \<Rightarrow> parse_status" where
  \<comment> \<open>a value is expected; the flag allows the \<^verbatim>\<open>]\<close> of an empty array\<close>
  "parse_value fs e (TString s) = complete (JStr s) fs"
| "parse_value fs e (TNumber n) = complete (JNum n) fs"
| "parse_value fs e TTrue = complete (JBool True) fs"
| "parse_value fs e TFalse = complete (JBool False) fs"
| "parse_value fs e TNull = complete JNull fs"
| "parse_value fs e TLBracket = Parsing (ArrFrame [] # fs) ExpValueOrEnd"
| "parse_value fs e TLBrace = Parsing (ObjFrame [] None # fs) ExpKeyOrEnd"
| "parse_value (ArrFrame xs # fs) True TRBracket = complete (JArr xs) fs"
| "parse_value fs e t = Bad"

fun parse_key :: "frame list \<Rightarrow> bool \<Rightarrow> json_token \<Rightarrow> parse_status" where
  \<comment> \<open>a key is expected; the flag allows the \<^verbatim>\<open>}\<close> of an empty object\<close>
  "parse_key (ObjFrame kvs p # fs) e (TString k) = Parsing (ObjFrame kvs (Some k) # fs) ExpColon"
| "parse_key (ObjFrame kvs p # fs) True TRBrace = complete (JObj kvs) fs"
| "parse_key fs e t = Bad"

fun parse_more :: "frame list \<Rightarrow> json_token \<Rightarrow> parse_status" where
  \<comment> \<open>after an element: a comma or the end of the container\<close>
  "parse_more (ArrFrame xs # fs) TComma = Parsing (ArrFrame xs # fs) ExpValue"
| "parse_more (ObjFrame kvs None # fs) TComma = Parsing (ObjFrame kvs None # fs) ExpKey"
| "parse_more (ArrFrame xs # fs) TRBracket = complete (JArr xs) fs"
| "parse_more (ObjFrame kvs None # fs) TRBrace = complete (JObj kvs) fs"
| "parse_more fs t = Bad"

fun parse_step :: "parse_status \<Rightarrow> json_token \<Rightarrow> parse_status" where
  "parse_step (Parsing fs ExpValue) t = parse_value fs False t"
| "parse_step (Parsing fs ExpValueOrEnd) t = parse_value fs True t"
| "parse_step (Parsing fs ExpKeyOrEnd) t = parse_key fs True t"
| "parse_step (Parsing fs ExpKey) t = parse_key fs False t"
| "parse_step (Parsing fs ExpColon) t = (if t = TColon then Parsing fs ExpValue else Bad)"
| "parse_step (Parsing fs ExpCommaOrEnd) t = parse_more fs t"
| "parse_step (Finished v) t = Bad"
| "parse_step Bad t = Bad"

datatype parse_result = Parsed jsval | Malformed | Unmodelled

definition JSON_parse :: "string \<Rightarrow> parse_result" where
  "JSON_parse text =
     (case lex_finish (foldl lex_step (Lexing Idle []) text) of
        LexMalformed \<Rightarrow> Malformed
      | LexUnmodelled \<Rightarrow> Unmodelled
      | Lexing m toks \<Rightarrow>
          (case foldl parse_step (Parsing [] ExpValue) toks of
             Finished v \<Rightarrow> Parsed v
           | _ \<Rightarrow> Malformed))"

section \<open>The session object (zentao.ts)\<close>

subsection \<open>Strings and addresses\<close>

definition startsWith :: "string \<Rightarrow> string \<Rightarrow> bool" where
  "startsWith s pre = (take (length pre) s = pre)"

definition endsWith :: "string \<Rightarrow> string \<Rightarrow> bool" where
  "endsWith s suf = (length suf \<le> length s \<and> drop (length s - length suf) s = suf)"

definition formatZentaoUrl :: "string \<Rightarrow> string" where
  "formatZentaoUrl url =
     (let u = (if endsWith url ''/index.php'' then take (length url - 9) url
               else if \<not> endsWith url ''/'' then url @ ''/''
               else url)
      in if \<not> startsWith u ''https://'' \<and> \<not> startsWith u ''http://'' then ''http://'' @ u
         else u)"

definition lower_char :: "char \<Rightarrow> char" where
  "lower_char c =
     (let n = (of_char c :: nat)
      in if (65 \<le> n \<and> n \<le> 90) \<or> (192 \<le> n \<and> n \<le> 222 \<and> n \<noteq> 215) then char_of (n + 32)
         else c)"

definition toLowerCase :: "string \<Rightarrow> string" where
  "toLowerCase s = map lower_char s"

definition unreserved :: "char \<Rightarrow> bool" where
  \<comment> \<open>the characters \<^verbatim>\<open>encodeURIComponent\<close> leaves as they are\<close>
  "unreserved c =
     (let n = (of_char c :: nat)
      in (48 \<le> n \<and> n \<le> 57) \<or> (65 \<le> n \<and> n \<le> 90) \<or> (97 \<le> n \<and> n \<le> 122)
         \<or> c \<in> set ''-_.!~*()'' \<or> c = CHR 0x27)"

definition percent :: "nat \<Rightarrow> string" where
  "percent b = [CHR ''%'', ''0123456789ABCDEF'' ! (b div 16), ''0123456789ABCDEF'' ! (b mod 16)]"

definition encode_char :: "char \<Rightarrow> string" where
  \<comment> \<open>an escaped code unit is written as the bytes of its UTF-8 form\<close>
  "encode_char c =
     (let n = (of_char c :: nat)
      in if unreserved c then [c]
         else if n < 128 then percent n
         else percent (192 + n div 64) @ percent (128 + n mod 64))"

definition encodeURIComponent :: "string \<Rightarrow> string" where
  "encodeURIComponent s = concat (map encode_char s)"

subsection \<open>Property reads on a value\<close>

definition isObject :: "jsval \<Rightarrow> bool" where
  \<comment> \<open>\<^verbatim>\<open>typeof v === 'object' && v !== null\<close>: an array is an object too\<close>
  "isObject v = (case v of JArr xs \<Rightarrow> True | JObj kvs \<Rightarrow> True | _ \<Rightarrow> False)"

definition truthy :: "jsval \<Rightarrow> bool" where
  "truthy v =
     (case v of
        JUndefined \<Rightarrow> False | JNull \<Rightarrow> False | JBool b \<Rightarrow> b
      | JNum n \<Rightarrow> n \<noteq> 0 | JStr s \<Rightarrow> s \<noteq> [] | _ \<Rightarrow> True)"

definition index_prop :: "nat \<Rightarrow> string \<Rightarrow> nat option" where
  \<comment> \<open>the index a property name denotes in an array or string of the given length\<close>
  "index_prop n k = List.find (\<lambda>i. show_nat i = k) [0..<n]"

definition prop_of :: "jsval \<Rightarrow> string \<Rightarrow> jsval" where
  \<comment> \<open>\<^verbatim>\<open>v[k]\<close> for a value that is neither \<^verbatim>\<open>null\<close> nor \<^verbatim>\<open>undefined\<close>: own properties,
      the length and the elements of an array or string; inherited members are not
      modelled\<close>
  "prop_of v k =
     (case v of
        JObj kvs \<Rightarrow> get_prop kvs k
      | JArr xs \<Rightarrow>
          if k = ''length'' then JNum (int (length xs))
          else (case index_prop (length xs) k of None \<Rightarrow> JUndefined | Some i \<Rightarrow> xs ! i)
      | JStr s \<Rightarrow>
          if k = ''length'' then JNum (int (length s))
          else (case index_prop (length s) k of None \<Rightarrow> JUndefined | Some i \<Rightarrow> JStr [s ! i])
      | _ \<Rightarrow> JUndefined)"

definition slimmingObject :: "jsval \<Rightarrow> string list \<Rightarrow> jsval" where
  "slimmingObject object flds =
     (if \<not> isObject object then object
      else JObj (foldl (\<lambda>newObject field. set_prop newObject field (prop_of object field)) [] flds))"

subsection \<open>Instance, options, requests\<close>

datatype error =
    TransportError string
  | ConfigError string
  | SyntaxError
  | TypeError
  | OutOfModel

record ZentaoApiResult =
  status :: nat
  msg :: jsval
  result :: jsval

record ZentaoOptions =
  opt_url :: string
  opt_account :: string
  opt_password :: string
  opt_accessMode :: "ZentaoRequestType option"
  opt_preserveToken :: "bool option"
  opt_sessionName :: "string option"

record Zentao =
  z_identifier :: string
  z_preserveToken :: bool
  z_sessionName :: string
  z_url :: string
  z_account :: string
  z_password :: string
  z_userRequestType :: "ZentaoRequestType option"

datatype request_data = DataUndefined | DataString string | DataRecord jsobject

record request_options =
  o_params :: ZentaoRequestParams
  o_data :: request_data
  o_name :: "string option"
  o_method :: "string option"
  o_url :: "string option"
  o_resultConvertor :: "(jsval \<Rightarrow> ZentaoApiResult \<Rightarrow> error + ZentaoApiResult) option"
  o_fields :: "string list option"

text \<open>
  What goes over the wire. A form body stands for \<^verbatim>\<open>querystring.stringify(formData)\<close>;
  the encoding of the form is the runtime's and is not expanded.
\<close>

datatype http_body = NoBody | RawBody string | FormBody jsobject

record http_request =
  req_method :: string
  req_url :: string
  req_body :: http_body
  req_cookie :: "string option"

datatype event = LoginCalled | Exchanged http_request

text \<open>
  The world outside: the transport answers the \<open>k\<close>-th exchange of a run (a failure
  message, or the body), the clock answers the \<open>k\<close>-th \<^verbatim>\<open>Date.now()\<close>. A handshake body
  is the record the constructor reads, or \<open>None\<close> for a \<^verbatim>\<open>null\<close> body. Every server and
  every clock is some such environment.
\<close>

record env =
  env_handshake :: "nat \<Rightarrow> string + config_payload option"
  env_api :: "nat \<Rightarrow> string + jsval"
  env_clock :: "nat \<Rightarrow> int"
  env_unescape :: "string \<Rightarrow> string"

text \<open>
  The mutable part: the instance's \<^verbatim>\<open>_config\<close>, the local store (session label to the
  kept config), and a history of what the run did: the exchanges, and each entry into
  \<^verbatim>\<open>login()\<close>. Diagnostic output (\<^verbatim>\<open>_debug\<close>) is left out.
\<close>

record session_state =
  st_config :: "ZentaoConfig option"
  st_store :: "string \<Rightarrow> config_payload option"
  st_events :: "event list"
  st_ticks :: nat

fun is_exchange :: "event \<Rightarrow> bool" where
  "is_exchange (Exchanged r) = True"
| "is_exchange LoginCalled = False"

definition exchanges :: "session_state \<Rightarrow> nat" where
  "exchanges st = length (filter is_exchange (st_events st))"

definition Date_now :: "env \<Rightarrow> session_state \<Rightarrow> int \<times> session_state" where
  "Date_now e st = (env_clock e (st_ticks st), st\<lparr> st_ticks := Suc (st_ticks st) \<rparr>)"

definition Zentao_new :: "ZentaoOptions \<Rightarrow> env \<Rightarrow> session_state \<Rightarrow> Zentao \<times> session_state" where
  \<comment> \<open>the constructor: the incoming state gives the store and the clock position\<close>
  "Zentao_new options e st =
     (let url = formatZentaoUrl (opt_url options);
          identifier = opt_account options @ ''@'' @ url;
          name = ''ZENTAO-API::'' @ or_default (opt_sessionName options) identifier;
          preserve = or_default (opt_preserveToken options) True;
          z = \<lparr> z_identifier = identifier, z_preserveToken = preserve, z_sessionName = name,
                z_url = url, z_account = opt_account options,
                z_password = opt_password options,
                z_userRequestType = opt_accessMode options \<rparr>
      in if preserve
         then (case st_store st name of
                 None \<Rightarrow> (z, st\<lparr> st_config := None \<rparr>)
               | Some configFromStore \<Rightarrow>
                   (let (now, st1) = Date_now e st
                    in (z, st1\<lparr> st_config := Some (ZentaoConfig_new configFromStore now) \<rparr>)))
         else (z, st\<lparr> st_config := None \<rparr>))"

definition zentao_requestType :: "Zentao \<Rightarrow> ZentaoConfig option \<Rightarrow> ZentaoRequestType" where
  \<comment> \<open>\<^verbatim>\<open>this._userRequestType ?? this._config?.requestType ?? 'GET'\<close>\<close>
  "zentao_requestType z config =
     (case z_userRequestType z of
        Some t \<Rightarrow> t
      | None \<Rightarrow> (case config of None \<Rightarrow> GET | Some c \<Rightarrow> requestType c))"

definition createUrl ::
  "Zentao \<Rightarrow> ZentaoConfig option \<Rightarrow> string \<Rightarrow> string \<Rightarrow> ZentaoRequestParamPair list option
     \<Rightarrow> error + string" where
  "createUrl z cfg moduleName methodName params =
     (case cfg of
        None \<Rightarrow>
          Inl (ConfigError ''Zentao config is empty, makesure fetch config before call others api.'')
      | Some config \<Rightarrow>
          Inr (if zentao_requestType z cfg = PATH_INFO
               then z_url z @ moduleName @ requestFix config @ methodName
                    @ concat (map (\<lambda>paramPair. requestFix config @ join_item (snd paramPair))
                                (or_default params []))
                    @ ''.json''
               else z_url z
                    @ (''?'' @ moduleVar config @ ''='' @ moduleName
                       @ ''&'' @ methodVar config @ ''='' @ methodName)
                    @ concat (map (\<lambda>paramPair. ''&'' @ fst paramPair @ ''=''
                                     @ encodeURIComponent (ToString (snd paramPair)))
                                (or_default params []))
                    @ (''&'' @ viewVar config @ ''=json'')))"

definition flatten_form :: "jsobject \<Rightarrow> jsobject" where
  \<comment> \<open>an array field \<^verbatim>\<open>k\<close> becomes the fields \<^verbatim>\<open>k[0]\<close>, \<^verbatim>\<open>k[1]\<close>, ...\<close>
  "flatten_form data =
     foldl (\<lambda>formData key.
              (case get_prop data key of
                 JArr items \<Rightarrow>
                   foldl (\<lambda>fd (index, item). set_prop fd (key @ ''['' @ show_nat index @ '']'') item)
                     formData (enumerate 0 items)
               | v \<Rightarrow> set_prop formData key v))
       [] (Object_keys data)"

definition encode_data :: "request_data \<Rightarrow> http_body" where
  "encode_data data =
     (case data of
        DataUndefined \<Rightarrow> NoBody
      | DataString s \<Rightarrow> RawBody s
      | DataRecord obj \<Rightarrow> FormBody (flatten_form obj))"

subsection \<open>Reading the response\<close>

definition decode_data :: "jsval \<Rightarrow> error + jsval" where
  \<comment> \<open>\<^verbatim>\<open>remoteData.data = JSON.parse(remoteData.data)\<close> for a string that starts as JSON does\<close>
  "decode_data remoteData =
     (case prop_of remoteData ''data'' of
        JStr s \<Rightarrow>
          if s \<noteq> [] \<and> (hd s = CHR ''['' \<or> hd s = CHR ''{'')
          then (case JSON_parse s of
                  Parsed v \<Rightarrow>
                    Inr (case remoteData of JObj kvs \<Rightarrow> JObj (set_prop kvs ''data'' v) | _ \<Rightarrow> remoteData)
                | Malformed \<Rightarrow> Inl SyntaxError
                | Unmodelled \<Rightarrow> Inl OutOfModel)
          else Inr remoteData
      | _ \<Rightarrow> Inr remoteData)"

definition normalizeResponse :: "jsval \<Rightarrow> error + jsval \<times> ZentaoApiResult" where
  \<comment> \<open>lines 358 to 378 of \<^verbatim>\<open>request\<close>: the body as the convertor will see it, and the result\<close>
  "normalizeResponse respData =
     (if isObject respData
      then (case decode_data respData of
              Inl err \<Rightarrow> Inl err
            | Inr remoteData \<Rightarrow>
                (let success = (prop_of remoteData ''status'' = JStr ''success''
                                \<or> prop_of remoteData ''result'' = JStr ''success'')
                 in Inr (remoteData,
                      \<lparr> status = (if success then 1 else 0),
                        msg = (if nullish (prop_of remoteData ''message'')
                               then JStr (if success then ''success'' else ''error'')
                               else prop_of remoteData ''message''),
                        result = (if nullish (prop_of remoteData ''data'')
                                  then prop_of remoteData ''result''
                                  else prop_of remoteData ''data'') \<rparr>)))
      else Inr (respData, \<lparr> status = 0, msg = JStr ''error'', result = respData \<rparr>))"

text \<open>
  For stating what the normalization gives for a JSON object: whether a string starts as
  a JSON array or object does, whether the fields report success, and the message.
\<close>

definition json_like :: "string \<Rightarrow> bool" where
  "json_like s = (s \<noteq> [] \<and> (hd s = CHR ''['' \<or> hd s = CHR ''{''))"

definition succeeded :: "jsobject \<Rightarrow> bool" where
  "succeeded kvs =
     (get_prop kvs ''status'' = JStr ''success'' \<or> get_prop kvs ''result'' = JStr ''success'')"

definition message_of :: "jsobject \<Rightarrow> jsval" where
  "message_of kvs =
     (if nullish (get_prop kvs ''message'')
      then JStr (if succeeded kvs then ''success'' else ''error'')
      else get_prop kvs ''message'')"

definition apply_fields :: "string list option \<Rightarrow> ZentaoApiResult \<Rightarrow> ZentaoApiResult" where
  "apply_fields flds r =
     (case flds of
        None \<Rightarrow> r
      | Some fs \<Rightarrow>
          (case result r of
             JArr xs \<Rightarrow> r\<lparr> result := JArr (map (\<lambda>x. slimmingObject x fs) xs) \<rparr>
           | JObj kvs \<Rightarrow> r\<lparr> result := slimmingObject (JObj kvs) fs \<rparr>
           | _ \<Rightarrow> r))"

definition read_response :: "request_options \<Rightarrow> jsval \<Rightarrow> error + ZentaoApiResult" where
  \<comment> \<open>normalization, then the convertor, then the field filter\<close>
  "read_response options respData =
     (case normalizeResponse respData of
        Inl err \<Rightarrow> Inl err
      | Inr (remoteData, r) \<Rightarrow>
          (case (case o_resultConvertor options of
                   None \<Rightarrow> Inr r
                 | Some convertor \<Rightarrow> convertor remoteData r) of
             Inl err \<Rightarrow> Inl err
           | Inr r' \<Rightarrow> Inr (apply_fields (o_fields options) r')))"

subsection \<open>The request builder (zentao-request-builder.ts)\<close>

record ZentaoRequestBuilder =
  b_moduleName :: string
  b_methodName :: string
  b_params :: ZentaoRequestParams
  b_data :: request_data
  b_fields :: "string list option"
  b_resultConvertor :: "(jsval \<Rightarrow> ZentaoApiResult \<Rightarrow> error + ZentaoApiResult) option"
  b_url :: "string option"
  b_name :: "string option"

definition module_builder ::
  "string \<Rightarrow> string option \<Rightarrow> ZentaoRequestParams \<Rightarrow> ZentaoRequestBuilder" where
  \<comment> \<open>\<^verbatim>\<open>zentao.module(moduleName, methodName, params)\<close>, also written \<^verbatim>\<open>m\<close>\<close>
  "module_builder moduleName methodName params =
     \<lparr> b_moduleName = moduleName, b_methodName = or_default methodName ''index'',
       b_params = params, b_data = DataUndefined, b_fields = None,
       b_resultConvertor = None, b_url = None, b_name = None \<rparr>"

definition set_method :: "ZentaoRequestBuilder \<Rightarrow> string \<Rightarrow> ZentaoRequestBuilder" where
  \<comment> \<open>\<^verbatim>\<open>method(name)\<close>, also written \<^verbatim>\<open>f\<close>\<close>
  "set_method b name = b\<lparr> b_methodName := name \<rparr>"

definition withParams :: "ZentaoRequestBuilder \<Rightarrow> ZentaoRequestParams \<Rightarrow> ZentaoRequestBuilder" where
  "withParams b params = b\<lparr> b_params := params \<rparr>"

definition appendParams ::
  "(string \<Rightarrow> string) \<Rightarrow> ZentaoRequestBuilder \<Rightarrow> ZentaoRequestParams \<Rightarrow> ZentaoRequestBuilder" where
  "appendParams unescape b params =
     (if b_params b = PUndefined \<or> b_params b = PString []
      then b\<lparr> b_params := params \<rparr>
      else b\<lparr> b_params :=
                PArray (map (\<lambda>p. Pair (fst p) (snd p))
                          (mergeRequestParams unescape (b_params b) [params])) \<rparr>)"

definition named :: "ZentaoRequestBuilder \<Rightarrow> string \<Rightarrow> ZentaoRequestBuilder" where
  "named b name = b\<lparr> b_name := Some name \<rparr>"

definition useConverter ::
  "ZentaoRequestBuilder \<Rightarrow> (jsval \<Rightarrow> ZentaoApiResult \<Rightarrow> error + ZentaoApiResult)
     \<Rightarrow> ZentaoRequestBuilder" where
  "useConverter b converter = b\<lparr> b_resultConvertor := Some converter \<rparr>"

definition filterFields :: "ZentaoRequestBuilder \<Rightarrow> string list option list \<Rightarrow> ZentaoRequestBuilder" where
  \<comment> \<open>each argument is a name list (one name is a list of one) or \<^verbatim>\<open>undefined\<close>\<close>
  "filterFields b flds = b\<lparr> b_fields := Some (concat (map (\<lambda>x. or_default x []) flds)) \<rparr>"

definition builder_options ::
  "ZentaoRequestBuilder \<Rightarrow> string option \<Rightarrow> request_data \<Rightarrow> request_options" where
  \<comment> \<open>the options a terminal operation hands to \<^verbatim>\<open>zentao.request\<close>\<close>
  "builder_options b verb data =
     \<lparr> o_params = b_params b, o_data = data, o_name = b_name b, o_method = verb,
       o_url = b_url b, o_resultConvertor = b_resultConvertor b, o_fields = b_fields b \<rparr>"

definition get_options :: "ZentaoRequestBuilder \<Rightarrow> request_options" where
  "get_options b = builder_options b (Some ''GET'') (b_data b)"

definition post_options :: "ZentaoRequestBuilder \<Rightarrow> request_data \<Rightarrow> request_options" where
  \<comment> \<open>\<^verbatim>\<open>post(data)\<close>: \<^verbatim>\<open>data ?? this._data\<close>\<close>
  "post_options b data =
     builder_options b (Some ''POST'') (if data = DataUndefined then b_data b else data)"

subsection \<open>fetchConfig, login, request\<close>

definition fetchConfig :: "Zentao \<Rightarrow> env \<Rightarrow> session_state \<Rightarrow> (error + ZentaoConfig) \<times> session_state" where
  "fetchConfig z e st =
     (let url = z_url z @ ''/?mode=getconfig'';
          reply = env_handshake e (exchanges st);
          st1 = st\<lparr> st_events := st_events st
                  @ [Exchanged \<lparr> req_method = ''GET'', req_url = url, req_body = NoBody,
                                 req_cookie = None \<rparr>] \<rparr>
      in case reply of
           Inl failure \<Rightarrow> (Inl (TransportError failure), st1)
         | Inr None \<Rightarrow> (Inl TypeError, st1)
         | Inr (Some payload) \<Rightarrow>
             (let (now, st2) = Date_now e st1;
                  config = ZentaoConfig_new payload now
              in (Inr config, st2\<lparr> st_config := Some config \<rparr>)))"

definition login_convertor :: "jsval \<Rightarrow> ZentaoApiResult \<Rightarrow> error + ZentaoApiResult" where
  \<comment> \<open>\<^verbatim>\<open>if (remoteData.user) result.result = remoteData.user\<close>; the read throws on \<^verbatim>\<open>null\<close>\<close>
  "login_convertor remoteData r =
     (if nullish remoteData then Inl TypeError
      else if truthy (prop_of remoteData ''user'')
           then Inr (r\<lparr> result := prop_of remoteData ''user'' \<rparr>)
           else Inr r)"

definition login_options :: "Zentao \<Rightarrow> request_options" where
  \<comment> \<open>\<^verbatim>\<open>this.m('user').f('login').useConverter(...).post({account, password})\<close>\<close>
  "login_options z =
     post_options
       (useConverter (set_method (module_builder ''user'' None PUndefined) ''login'') login_convertor)
       (DataRecord [(''account'', JStr (z_account z)), (''password'', JStr (z_password z))])"

definition gate_expired :: "env \<Rightarrow> session_state \<Rightarrow> bool \<times> session_state" where
  \<comment> \<open>\<^verbatim>\<open>!this._config || this._config?.isTokenExpired\<close>; the clock is read only when the
      config has a truthy update time\<close>
  "gate_expired e st =
     (case st_config st of
        None \<Rightarrow> (True, st)
      | Some c \<Rightarrow>
          (case priv_tokenUpdateTime c of
             None \<Rightarrow> (True, st)
           | Some t \<Rightarrow>
               if t = 0 then (True, st)
               else (let (now, st1) = Date_now e st in (isTokenExpired c now, st1))))"

definition renew_and_store :: "Zentao \<Rightarrow> env \<Rightarrow> ZentaoConfig \<Rightarrow> session_state \<Rightarrow> session_state" where
  \<comment> \<open>\<^verbatim>\<open>this._config?.renewToken(); if (this._preserveToken) this._store?.set('config', this._config)\<close>;
      the constructor makes the store exactly when \<^verbatim>\<open>_preserveToken\<close> holds\<close>
  "renew_and_store z e config st =
     (let (now, st1) = Date_now e st;
          renewed = renewToken config now;
          st2 = st1\<lparr> st_config := Some renewed \<rparr>
      in if z_preserveToken z
         then st2\<lparr> st_store := (st_store st2)(z_sessionName z \<mapsto> serialize renewed) \<rparr>
         else st2)"

definition request_main ::
  "Zentao \<Rightarrow> env \<Rightarrow> string \<Rightarrow> string \<Rightarrow> request_options \<Rightarrow> session_state
     \<Rightarrow> (error + ZentaoApiResult) \<times> session_state" where
  \<comment> \<open>\<^verbatim>\<open>request\<close> after its authentication gate (from line 314 on)\<close>
  "request_main z e moduleName methodName options st =
     (case st_config st of
        None \<Rightarrow>
          (Inl (ConfigError (''Zentao config is empty, makesure to fetch config before request from ''
                               @ moduleName @ ''-'' @ methodName @ ''.'')), st)
      | Some config \<Rightarrow>
          (let params = normalizeRequestParams (env_unescape e) (o_params options)
           in case (case o_url options of
                      Some u \<Rightarrow> Inr u
                    | None \<Rightarrow> createUrl z (st_config st) moduleName methodName (Some params)) of
                Inl err \<Rightarrow> (Inl err, st)
              | Inr url \<Rightarrow>
                  if o_name options = None \<and> methodName = [] then (Inl TypeError, st)
                  else
                    (let reply = env_api e (exchanges st);
                         st1 = st\<lparr> st_events := st_events st
                                 @ [Exchanged \<lparr> req_method = or_default (o_method options) ''GET'',
                                                req_url = url,
                                                req_body = encode_data (o_data options),
                                                req_cookie = Some (tokenAuth config) \<rparr>] \<rparr>
                     in case reply of
                          Inl failure \<Rightarrow> (Inl (TransportError failure), st1)
                        | Inr respData \<Rightarrow>
                            (case read_response options respData of
                               Inl err \<Rightarrow> (Inl err, st1)
                             | Inr r \<Rightarrow>
                                 if moduleName @ ''/'' @ methodName = ''user/login'' \<and> status r = 1
                                 then (Inr r, renew_and_store z e config st1)
                                 else (Inr r, st1)))))"

function login :: "Zentao \<Rightarrow> env \<Rightarrow> session_state \<Rightarrow> (error + ZentaoApiResult) \<times> session_state"
  and request ::
    "Zentao \<Rightarrow> env \<Rightarrow> string \<Rightarrow> string \<Rightarrow> request_options \<Rightarrow> session_state
       \<Rightarrow> (error + ZentaoApiResult) \<times> session_state" where
  "login z e st =
     (case fetchConfig z e (st\<lparr> st_events := st_events st @ [LoginCalled] \<rparr>) of
        (Inl err, st1) \<Rightarrow> (Inl err, st1)
      | (Inr config, st1) \<Rightarrow> request z e ''user'' ''login'' (login_options z) st1)"
| "request z e moduleName methodName options st =
     (case gate_expired e st of
        (expired, st1) \<Rightarrow>
          if expired \<and> toLowerCase (moduleName @ ''/'' @ methodName) \<noteq> ''user/login''
          then (case login z e st1 of
                  (Inl err, st2) \<Rightarrow> (Inl err, st2)
                | (Inr r, st2) \<Rightarrow> request_main z e moduleName methodName options st2)
          else request_main z e moduleName methodName options st1)"
  by pat_completeness auto
termination
  by (relation "measure (\<lambda>x. case x of
          Inl (z, e, st) \<Rightarrow> 1
        | Inr (z, e, moduleName, methodName, options, st) \<Rightarrow>
            if toLowerCase (moduleName @ ''/'' @ methodName) \<noteq> ''user/login'' then 2 else 0)")
     (auto simp: toLowerCase_def lower_char_def)

declare login.simps [simp del] request.simps [simp del]

text \<open>
  The gate of \<^verbatim>\<open>request\<close> (lines 307 to 312) on its own: whether it calls \<^verbatim>\<open>login()\<close>,
  and what it leaves: the error \<^verbatim>\<open>login()\<close> threw with the state at that point, or the
  state in which \<^verbatim>\<open>request\<close> goes on.
\<close>

definition gate_fires :: "env \<Rightarrow> string \<Rightarrow> string \<Rightarrow> session_state \<Rightarrow> bool" where
  "gate_fires e moduleName methodName st =
     (fst (gate_expired e st) \<and> toLowerCase (moduleName @ ''/'' @ methodName) \<noteq> ''user/login'')"

definition auth_gate ::
  "Zentao \<Rightarrow> env \<Rightarrow> string \<Rightarrow> string \<Rightarrow> session_state \<Rightarrow> error \<times> session_state + session_state" where
  "auth_gate z e moduleName methodName st =
     (if gate_fires e moduleName methodName st
      then (case login z e (snd (gate_expired e st)) of
              (Inl err, st2) \<Rightarrow> Inl (err, st2)
            | (Inr r, st2) \<Rightarrow> Inr st2)
      else Inr (snd (gate_expired e st)))"

section \<open>Sample values\<close>

text \<open>
  The instance of the class documentation, a store with nothing in it, and a server that
  answers the handshake with the documented record and every call with a success.
\<close>

definition fresh_state :: session_state where
  "fresh_state = \<lparr> st_config = None, st_store = Map.empty, st_events = [], st_ticks = 0 \<rparr>"

definition demo_options :: ZentaoOptions where
  "demo_options =
     \<lparr> opt_url = ''https://pro.demo.zentao.net/'', opt_account = ''demo'',
       opt_password = ''123456'', opt_accessMode = None, opt_preserveToken = None,
       opt_sessionName = None \<rparr>"

definition demo_env :: env where
  "demo_env =
     \<lparr> env_handshake = (\<lambda>k. Inr (Some demo_payload)),
       env_api = (\<lambda>k. Inr (JObj [(''status'', JStr ''success''), (''data'', JStr ''{}'')])),
       env_clock = (\<lambda>k. 1615098427000 + 1000 * int k),
       env_unescape = (\<lambda>s. s) \<rparr>"

definition demo_zentao :: Zentao where
  "demo_zentao = fst (Zentao_new demo_options demo_env fresh_state)"

definition offline_env :: env where
  \<comment> \<open>the same world with the server out of reach\<close>
  "offline_env = demo_env\<lparr> env_handshake := (\<lambda>k. Inl ''ECONNREFUSED'') \<rparr>"

definition garbled_env :: env where
  \<comment> \<open>a server that reports a failure with a plain text in \<^verbatim>\<open>data\<close>\<close>
  "garbled_env =
     demo_env\<lparr> env_api :=
       (\<lambda>k. Inr (JObj [(''status'', JStr ''fail''), (''data'', JStr ''[error] not found'')])) \<rparr>"

text \<open>
  The state after the handshake alone, a state with a token renewed a second before the
  clock's next reading, and the options of a plain call.
\<close>

definition handshaken :: session_state where
  "handshaken = snd (fetchConfig demo_zentao demo_env fresh_state)"

definition session_open :: session_state where
  "session_open =
     fresh_state\<lparr> st_config :=
                     Some (renewToken (ZentaoConfig_new demo_payload 1615098427000) 1615098428000),
                   st_ticks := 2 \<rparr>"

definition product_all :: request_options where
  "product_all =
     get_options (module_builder ''product'' (Some ''all'')
                    (PArray [Pair ''status'' (JStr ''noclosed'')]))"

section \<open>Token expiry\<close>

lemmas config_defs =
  ZentaoConfig_new_def demo_payload_def parseInt10_def isWhiteSpace_def isDigit_def
  digits_value_def or_default_def

text \<open>
  C1 (as amended). With \<^verbatim>\<open>expiredTime = 1440\<close> and a token issued at a non-zero time \<open>t\<close>
  (milliseconds), \<^verbatim>\<open>isTokenExpired\<close> holds exactly when at least 1410000 ms have passed:
  not yet at 1409.999 s, and both at 1410 s and at 1411 s. The boundary at the lifetime
  less 30 seconds belongs to the expired side.
\<close>

theorem C1_expiry_boundary:
  assumes "expiredTime c = Some 1440" and "priv_tokenUpdateTime c = Some t" and "t \<noteq> 0"
  shows "(isTokenExpired c now \<longleftrightarrow> 1410000 \<le> now - t)
         \<and> \<not> isTokenExpired c (t + 1409999)
         \<and> isTokenExpired c (t + 1410000)
         \<and> isTokenExpired c (t + 1411000)"
  using assms by (simp add: isTokenExpired_def)

theorem C1_expiry_boundary_witness:
  "isTokenExpired (renewToken (ZentaoConfig_new demo_payload 1615098427000) 1615098430000)
     (1615098430000 + 1411000)
   \<and> \<not> isTokenExpired (renewToken (ZentaoConfig_new demo_payload 1615098427000) 1615098430000)
     (1615098430000 + 1409999)"
proof -
  let ?c = "renewToken (ZentaoConfig_new demo_payload 1615098427000) 1615098430000"
  have e: "expiredTime ?c = Some 1440"
    by (simp add: renewToken_def config_defs)
  have u: "priv_tokenUpdateTime ?c = Some 1615098430000"
    by (simp add: renewToken_def)
  have n: "(1615098430000::int) \<noteq> 0" by simp
  from C1_expiry_boundary [OF e u n, of 0] show ?thesis by simp
qed

text \<open>
  The documented handshake record (\<^verbatim>\<open>expiredTime: '1440'\<close>), its token renewed, read
  1410 seconds later: expired.
\<close>

theorem C1_expired_at_1410_seconds:
  "isTokenExpired (renewToken (ZentaoConfig_new demo_payload 1615098427000) 1615098430000)
     (1615098430000 + 1410 * 1000) = True"
  by (simp add: isTokenExpired_def renewToken_def config_defs)

section \<open>Order of the pairs of a query string\<close>

lemmas qs_defs =
  querystring_parse_def maxKeys_def parse_segment_def addKeyValue_def decodeStr_def
  isHex_def object_pairs_def Object_keys_def get_prop_def set_prop_def

lemma object_pairs_keys: "map fst (object_pairs obj) = sort (Object_keys obj)"
  by (simp add: object_pairs_def comp_def)

text \<open>
  C2 (as amended). The pairs of a query string come in ascending order of their keys
  (code unit order, each key once), whatever the order of the keys in the text; each
  key carries the value the parsed object holds for it.
\<close>

theorem C2_keys_ascending:
  "sorted_wrt (<) (map fst (normalizeRequestParams unescape (PString s)))
   \<and> set (map fst (normalizeRequestParams unescape (PString s)))
       = fst ` set (querystring_parse unescape s)
   \<and> (\<forall>k v. (k, v) \<in> set (normalizeRequestParams unescape (PString s))
         \<longrightarrow> v = get_prop (querystring_parse unescape s) k)"
proof -
  let ?obj = "querystring_parse unescape s"
  have keys: "map fst (normalizeRequestParams unescape (PString s)) = sort (Object_keys ?obj)"
    by (simp add: object_pairs_keys)
  have "sorted (sort (Object_keys ?obj))" by simp
  moreover have "distinct (sort (Object_keys ?obj))" by (simp add: Object_keys_def)
  ultimately have a: "sorted_wrt (<) (sort (Object_keys ?obj))"
    by (simp add: strict_sorted_iff)
  have b: "set (sort (Object_keys ?obj)) = fst ` set ?obj"
    by (simp add: Object_keys_def)
  have c: "\<forall>k v. (k, v) \<in> set (normalizeRequestParams unescape (PString s))
         \<longrightarrow> v = get_prop ?obj k"
    by (auto simp: object_pairs_def)
  from a b c show ?thesis unfolding keys by blast
qed

theorem C2_keys_ascending_witness:
  "sorted_wrt (<) (map fst (normalizeRequestParams (\<lambda>s. s) (PString ''foo=bar&answer=42'')))"
  using C2_keys_ascending [of "\<lambda>s. s" "''foo=bar&answer=42''"] by simp

text \<open>
  The string of the repository's own test: \<^verbatim>\<open>answer\<close> comes before \<^verbatim>\<open>foo\<close>, against the
  order of the text.
\<close>

theorem C2_textual_order_counterexample:
  "normalizeRequestParams id (PString ''foo=bar&answer=42'')
     = [(''answer'', JStr ''42''), (''foo'', JStr ''bar'')]"
  by (simp add: qs_defs)

section \<open>Dispatch addresses\<close>

lemma demo_zentao_simps:
  "z_url demo_zentao = ''https://pro.demo.zentao.net/''"
  "z_userRequestType demo_zentao = None"
  "z_preserveToken demo_zentao = True"
  "z_account demo_zentao = ''demo''"
  "z_password demo_zentao = ''123456''"
  "z_sessionName demo_zentao = ''ZENTAO-API::demo@https://pro.demo.zentao.net/''"
  by (simp_all add: demo_zentao_def Zentao_new_def demo_options_def fresh_state_def
      formatZentaoUrl_def endsWith_def startsWith_def or_default_def Let_def)

text \<open>
  C3 (as amended). For module \<^verbatim>\<open>product\<close>, method \<^verbatim>\<open>all\<close> and the one parameter
  \<^verbatim>\<open>status = noclosed\<close>: in GET mode (with the variable names \<^verbatim>\<open>m\<close>, \<^verbatim>\<open>f\<close>, \<^verbatim>\<open>t\<close>) the
  address is the base followed by \<^verbatim>\<open>?m=product&f=all&status=noclosed&t=json\<close>; in
  PATH_INFO mode with the separator \<^verbatim>\<open>-\<close> it is the base followed by
  \<^verbatim>\<open>product-all-noclosed.json\<close>: only the value of a parameter is placed, not its key.
\<close>

theorem C3_dispatch_urls:
  "(zentao_requestType z (Some c) = GET \<and> moduleVar c = ''m'' \<and> methodVar c = ''f''
      \<and> viewVar c = ''t''
    \<longrightarrow> createUrl z (Some c) ''product'' ''all'' (Some [(''status'', JStr ''noclosed'')])
          = Inr (z_url z @ ''?m=product&f=all&status=noclosed&t=json''))
   \<and> (zentao_requestType z (Some c) = PATH_INFO \<and> requestFix c = ''-''
    \<longrightarrow> createUrl z (Some c) ''product'' ''all'' (Some [(''status'', JStr ''noclosed'')])
          = Inr (z_url z @ ''product-all-noclosed.json''))"
  by (simp add: createUrl_def or_default_def encodeURIComponent_def encode_char_def
      unreserved_def)

theorem C3_dispatch_urls_witness:
  "createUrl (demo_zentao\<lparr> z_userRequestType := Some GET \<rparr>)
       (Some (ZentaoConfig_new demo_payload 0))
       ''product'' ''all'' (Some [(''status'', JStr ''noclosed'')])
     = Inr ''https://pro.demo.zentao.net/?m=product&f=all&status=noclosed&t=json''
   \<and> createUrl demo_zentao (Some (ZentaoConfig_new demo_payload 0))
       ''product'' ''all'' (Some [(''status'', JStr ''noclosed'')])
     = Inr ''https://pro.demo.zentao.net/product-all-noclosed.json''"
  using C3_dispatch_urls [of "demo_zentao\<lparr> z_userRequestType := Some GET \<rparr>"
      "ZentaoConfig_new demo_payload 0"]
    C3_dispatch_urls [of demo_zentao "ZentaoConfig_new demo_payload 0"]
  by (simp add: zentao_requestType_def demo_zentao_simps config_defs)

text \<open>
  The documented instance and handshake record (PATH_INFO, separator \<^verbatim>\<open>-\<close>): the address
  is not the one with the key \<^verbatim>\<open>status\<close> as a segment.
\<close>

theorem C3_path_info_has_no_key:
  "createUrl demo_zentao (Some (ZentaoConfig_new demo_payload 0))
       ''product'' ''all'' (Some [(''status'', JStr ''noclosed'')])
     \<noteq> Inr (z_url demo_zentao @ ''product-all-status-noclosed.json'')"
  by (simp add: createUrl_def zentao_requestType_def demo_zentao_simps config_defs)

section \<open>A token has an issue time\<close>

text \<open>
  C7 (as amended). A config built from a handshake record that carries no \<^verbatim>\<open>_token\<close>,
  and every config that comes of it by renewing the token and by going through the store,
  has its update time set whenever its token is not empty.
\<close>

theorem C7_token_has_issue_time:
  "lifecycle c \<Longrightarrow> token c \<noteq> [] \<longrightarrow> priv_tokenUpdateTime c \<noteq> None"
proof (induction rule: lifecycle.induct)
  case (handshake config now)
  then show ?case by (simp add: token_def ZentaoConfig_new_def or_default_def)
next
  case (renewed c now)
  show ?case by (simp add: renewToken_def)
next
  case (restored c now)
  then show ?case by (simp add: token_def ZentaoConfig_new_def serialize_def)
qed

theorem C7_token_has_issue_time_witness:
  "token (ZentaoConfig_new (serialize (renewToken (ZentaoConfig_new demo_payload 5) 7)) 9) \<noteq> []
   \<and> priv_tokenUpdateTime
       (ZentaoConfig_new (serialize (renewToken (ZentaoConfig_new demo_payload 5) 7)) 9) \<noteq> None"
proof -
  have "lifecycle (ZentaoConfig_new demo_payload 5)"
    by (rule lifecycle.handshake) (simp add: demo_payload_def)
  then have "lifecycle
      (ZentaoConfig_new (serialize (renewToken (ZentaoConfig_new demo_payload 5) 7)) 9)"
    by (intro lifecycle.restored lifecycle.renewed)
  from C7_token_has_issue_time [OF this] show ?thesis
    by (simp add: token_def ZentaoConfig_new_def serialize_def renewToken_def tokenAuth_def
        or_default_def)
qed

text \<open>
  The constructor copies \<^verbatim>\<open>_token\<close> and \<^verbatim>\<open>_tokenUpdateTime\<close> from its record as they
  are: a record with a token and no update time gives a config with a token and no
  update time.
\<close>

theorem C7_payload_token_without_time:
  "token (ZentaoConfig_new (demo_payload\<lparr> p_token := Some ''zentaosid=abc'' \<rparr>) 0)
     = ''zentaosid=abc''
   \<and> priv_tokenUpdateTime
       (ZentaoConfig_new (demo_payload\<lparr> p_token := Some ''zentaosid=abc'' \<rparr>) 0) = None"
  by (simp add: token_def ZentaoConfig_new_def demo_payload_def or_default_def)

section \<open>Merging parameter sources\<close>

lemma combine_exists_first:
  "k \<in> fst ` set acc \<Longrightarrow>
   combine_exists k v acc
     = takeWhile (\<lambda>x. fst x \<noteq> k) acc
       @ (k, combined (the (map_of acc k)) v) # tl (dropWhile (\<lambda>x. fst x \<noteq> k) acc)"
proof (induction acc)
  case Nil
  then show ?case by simp
next
  case (Cons x xs)
  show ?case
  proof (cases "fst x = k")
    case True
    then show ?thesis by (cases x) (simp add: combined_def split: jsval.splits)
  next
    case False
    with Cons.prems have "k \<in> fst ` set xs" by auto
    with Cons.IH False show ?thesis by (cases x) simp
  qed
qed

lemma find_key_iff: "(List.find (\<lambda>x. fst x = k) acc \<noteq> None) = (k \<in> fst ` set acc)"
  by (force simp: find_None_iff)

lemma merge_param_keys:
  "merge_param acc p =
     (if fst p \<noteq> [] \<and> fst p \<in> fst ` set acc
      then combine_exists (fst p) (snd p) acc else acc @ [p])"
  unfolding merge_param_def find_key_iff ..

lemma foldl_concat_sources:
  "foldl f a (concat xss) = foldl (\<lambda>b xs. foldl f b xs) a xss"
  by (induction xss arbitrary: a) simp_all

text \<open>
  C4. Merging takes the pairs of the later sources one by one, left to right, into the
  normalized first source. A pair with a non-empty key that the accumulated list already
  has changes the first pair of that key only: its value is combined with the new one (an
  array grows at its end, another value becomes the two-element array of the old and the
  new value), and every other pair stays as it is. A pair with an empty key, or with a
  key the list does not have, is put at the end unchanged. The three-way merge of the
  specification gives exactly the list it states.
\<close>

theorem C4_merge_collision:
  "(k \<noteq> [] \<and> k \<in> fst ` set acc \<longrightarrow>
      merge_param acc (k, v)
        = takeWhile (\<lambda>x. fst x \<noteq> k) acc
          @ (k, combined (the (map_of acc k)) v) # tl (dropWhile (\<lambda>x. fst x \<noteq> k) acc))
   \<and> (k = [] \<or> k \<notin> fst ` set acc \<longrightarrow> merge_param acc (k, v) = acc @ [(k, v)])
   \<and> mergeRequestParams unescape params others
        = foldl merge_param (normalizeRequestParams unescape params)
            (concat (map (normalizeRequestParams unescape) others))
   \<and> mergeRequestParams unescape
        (PRecord [(''foo'', JStr ''bar''), (''hello'', JStr ''world'')])
        [PString ''answer=42'', PArray [Pair ''foo'' (JStr ''ter''), Pair ''say'' (JStr ''hi'')]]
        = [(''foo'', JArr [JStr ''bar'', JStr ''ter'']), (''hello'', JStr ''world''),
           (''answer'', JStr ''42''), (''say'', JStr ''hi'')]"
proof -
  have a: "k \<noteq> [] \<and> k \<in> fst ` set acc \<longrightarrow>
      merge_param acc (k, v)
        = takeWhile (\<lambda>x. fst x \<noteq> k) acc
          @ (k, combined (the (map_of acc k)) v) # tl (dropWhile (\<lambda>x. fst x \<noteq> k) acc)"
    by (simp add: merge_param_keys combine_exists_first)
  have b: "k = [] \<or> k \<notin> fst ` set acc \<longrightarrow> merge_param acc (k, v) = acc @ [(k, v)]"
    by (auto simp: merge_param_keys)
  have c: "mergeRequestParams unescape params others
        = foldl merge_param (normalizeRequestParams unescape params)
            (concat (map (normalizeRequestParams unescape) others))"
    by (simp add: mergeRequestParams_def foldl_concat_sources foldl_map)
  have d: "mergeRequestParams unescape
        (PRecord [(''foo'', JStr ''bar''), (''hello'', JStr ''world'')])
        [PString ''answer=42'', PArray [Pair ''foo'' (JStr ''ter''), Pair ''say'' (JStr ''hi'')]]
        = [(''foo'', JArr [JStr ''bar'', JStr ''ter'']), (''hello'', JStr ''world''),
           (''answer'', JStr ''42''), (''say'', JStr ''hi'')]"
    by (simp add: mergeRequestParams_def merge_param_def qs_defs)
  from a b c d show ?thesis by blast
qed

theorem C4_merge_collision_witness:
  "merge_param [(''foo'', JStr ''bar''), (''hello'', JStr ''world'')] (''foo'', JStr ''ter'')
     = [(''foo'', JArr [JStr ''bar'', JStr ''ter'']), (''hello'', JStr ''world'')]
   \<and> merge_param [(''foo'', JArr [JStr ''bar'', JStr ''ter''])] (''foo'', JStr ''x'')
     = [(''foo'', JArr [JStr ''bar'', JStr ''ter'', JStr ''x''])]
   \<and> merge_param [(''foo'', JStr ''bar'')] ([], JStr ''ter'')
     = [(''foo'', JStr ''bar''), ([], JStr ''ter'')]
   \<and> merge_param [(''foo'', JStr ''bar'')] (''say'', JStr ''hi'')
     = [(''foo'', JStr ''bar''), (''say'', JStr ''hi'')]"
  using C4_merge_collision [of "''foo''" "[(''foo'', JStr ''bar''), (''hello'', JStr ''world'')]"
      "JStr ''ter''"]
    C4_merge_collision [of "''foo''" "[(''foo'', JArr [JStr ''bar'', JStr ''ter''])]" "JStr ''x''"]
    C4_merge_collision [of "[]" "[(''foo'', JStr ''bar'')]" "JStr ''ter''"]
    C4_merge_collision [of "''say''" "[(''foo'', JStr ''bar'')]" "JStr ''hi''"]
  by (simp add: combined_def)

section \<open>The handshake leaves the config alone when it fails\<close>

text \<open>
  C10. When the handshake exchange fails, \<^verbatim>\<open>fetchConfig\<close> throws that failure, and
  whenever \<^verbatim>\<open>fetchConfig\<close> throws, the instance's config (and the store) is what it was
  before the call. The config is replaced only when the exchange has answered with a
  record, and then by the config built from it.
\<close>

theorem C10_fetchConfig_atomic:
  "(env_handshake e (exchanges st) = Inl failure \<longrightarrow>
      fst (fetchConfig z e st) = Inl (TransportError failure))
   \<and> (fst (fetchConfig z e st) = Inl err \<longrightarrow>
        st_config (snd (fetchConfig z e st)) = st_config st
        \<and> st_store (snd (fetchConfig z e st)) = st_store st)
   \<and> (fst (fetchConfig z e st) = Inr c \<longrightarrow>
        (\<exists>payload. env_handshake e (exchanges st) = Inr (Some payload))
        \<and> st_config (snd (fetchConfig z e st)) = Some c)"
  by (auto simp: fetchConfig_def Date_now_def Let_def split: sum.splits option.splits)

theorem C10_fetchConfig_atomic_witness:
  "fst (fetchConfig demo_zentao offline_env
          (fresh_state\<lparr> st_config := Some (ZentaoConfig_new demo_payload 5) \<rparr>))
     = Inl (TransportError ''ECONNREFUSED'')
   \<and> st_config (snd (fetchConfig demo_zentao offline_env
         (fresh_state\<lparr> st_config := Some (ZentaoConfig_new demo_payload 5) \<rparr>)))
     = Some (ZentaoConfig_new demo_payload 5)
   \<and> st_config (snd (fetchConfig demo_zentao demo_env fresh_state))
     = Some (ZentaoConfig_new demo_payload 1615098427000)"
proof -
  let ?st = "fresh_state\<lparr> st_config := Some (ZentaoConfig_new demo_payload 5) \<rparr>"
  have off: "env_handshake offline_env (exchanges ?st) = Inl ''ECONNREFUSED''"
    by (simp add: offline_env_def)
  have ok: "fst (fetchConfig demo_zentao demo_env fresh_state)
      = Inr (ZentaoConfig_new demo_payload 1615098427000)"
    by (simp add: fetchConfig_def demo_env_def fresh_state_def exchanges_def Date_now_def
        Let_def)
  from C10_fetchConfig_atomic [of offline_env ?st "''ECONNREFUSED''" demo_zentao
      "TransportError ''ECONNREFUSED''"] off
    C10_fetchConfig_atomic [of demo_env fresh_state _ demo_zentao _
      "ZentaoConfig_new demo_payload 1615098427000"] ok
  show ?thesis by (simp add: fresh_state_def)
qed

section \<open>A key that a query string repeats\<close>

lemma held_snoc:
  "held (vs @ [v]) =
     Some (case held vs of
             None \<Rightarrow> JStr v
           | Some cur \<Rightarrow>
               (case cur of JArr xs \<Rightarrow> JArr (xs @ [JStr v]) | _ \<Rightarrow> JArr [cur, JStr v]))"
  by (cases vs rule: held.cases) simp_all

lemma held_None: "held vs = None \<longleftrightarrow> vs = []"
  by (cases vs rule: held.cases) simp_all

lemma add_pairs_held:
  "distinct (map fst (foldl add_pair [] ps))
   \<and> (\<forall>k. map_of (foldl add_pair [] ps) k = held (values_of k ps))"
proof (induction ps rule: rev_induct)
  case Nil
  show ?case by (simp add: values_of_def)
next
  case (snoc p ps)
  let ?obj = "foldl add_pair [] ps"
  obtain k v where p: "p = (k, v)" by (cases p)
  from snoc have d: "distinct (map fst ?obj)"
    and m: "\<And>k'. map_of ?obj k' = held (values_of k' ps)" by auto
  show ?case
  proof (cases "map_of ?obj k")
    case None
    then have nk: "k \<notin> fst ` set ?obj" by (simp add: map_of_eq_None_iff)
    from None have step: "foldl add_pair [] (ps @ [p]) = ?obj @ [(k, JStr v)]"
      by (simp add: add_pair_def addKeyValue_def p)
    have "distinct (map fst (?obj @ [(k, JStr v)]))" using d nk by simp
    moreover have "\<forall>k'. map_of (?obj @ [(k, JStr v)]) k' = held (values_of k' (ps @ [p]))"
    proof
      fix k'
      show "map_of (?obj @ [(k, JStr v)]) k' = held (values_of k' (ps @ [p]))"
      proof (cases "k' = k")
        case True
        from None m have "held (values_of k ps) = None" by simp
        then have "values_of k ps = []" by (simp add: held_None)
        with True None show ?thesis
          by (simp add: map_add_def values_of_def p)
      next
        case False
        then show ?thesis
          by (simp add: map_add_def values_of_def p m [unfolded values_of_def]
              split: option.splits)
      qed
    qed
    ultimately show ?thesis unfolding step by blast
  next
    case (Some cur)
    let ?new = "case cur of JArr xs \<Rightarrow> JArr (xs @ [JStr v]) | _ \<Rightarrow> JArr [cur, JStr v]"
    from Some have step: "foldl add_pair [] (ps @ [p]) = AList.update k ?new ?obj"
      by (simp add: add_pair_def addKeyValue_def set_prop_def p)
    have "distinct (map fst (AList.update k ?new ?obj))" using d by (simp add: distinct_update)
    moreover have "\<forall>k'. map_of (AList.update k ?new ?obj) k' = held (values_of k' (ps @ [p]))"
    proof
      fix k'
      show "map_of (AList.update k ?new ?obj) k' = held (values_of k' (ps @ [p]))"
      proof (cases "k' = k")
        case True
        from Some m have h: "held (values_of k ps) = Some cur" by simp
        have "values_of k (ps @ [p]) = values_of k ps @ [v]" by (simp add: values_of_def p)
        with True h show ?thesis by (simp add: update_conv held_snoc)
      next
        case False
        then show ?thesis
          by (simp add: update_conv values_of_def p m [unfolded values_of_def])
      qed
    qed
    ultimately show ?thesis unfolding step by blast
  qed
qed

lemma parse_as_pairs:
  "foldl (parse_segment unescape) obj segs
     = foldl add_pair obj (map (segment_pair unescape) (filter (\<lambda>seg. seg \<noteq> []) segs))"
  by (induction segs arbitrary: obj)
     (simp_all add: parse_segment_def add_pair_def segment_pair_def)

lemma querystring_parse_pairs:
  "querystring_parse unescape s = foldl add_pair [] (textual_pairs unescape s)"
  by (simp add: querystring_parse_def textual_pairs_def parse_as_pairs)

lemma filter_distinct_key:
  "distinct ks \<Longrightarrow>
   filter (\<lambda>p. fst p = k) (map (\<lambda>x. (x, f x)) ks) = (if k \<in> set ks then [(k, f k)] else [])"
  by (induction ks) auto

lemma pairs_of_key:
  "filter (\<lambda>p. fst p = k) (normalizeRequestParams unescape (PString s))
     = (case held (values_of k (textual_pairs unescape s)) of None \<Rightarrow> [] | Some v \<Rightarrow> [(k, v)])"
proof -
  let ?obj = "querystring_parse unescape s"
  let ?ps = "textual_pairs unescape s"
  from add_pairs_held [of ?ps]
  have m: "map_of ?obj k = held (values_of k ?ps)"
    by (simp add: querystring_parse_pairs)
  have "distinct (sort (Object_keys ?obj))" by (simp add: Object_keys_def)
  then have "filter (\<lambda>p. fst p = k) (object_pairs ?obj)
      = (if k \<in> set (sort (Object_keys ?obj)) then [(k, get_prop ?obj k)] else [])"
    unfolding object_pairs_def by (rule filter_distinct_key)
  moreover have "k \<in> set (sort (Object_keys ?obj)) \<longleftrightarrow> map_of ?obj k \<noteq> None"
    by (simp add: Object_keys_def map_of_eq_None_iff)
  ultimately show ?thesis
    using m by (auto simp: get_prop_def split: option.splits)
qed

text \<open>
  C9 (as amended). \<^verbatim>\<open>querystring.parse\<close> reads at most the first 1000 segments of the
  string. When a key occurs more than once among the non-empty segments read, the
  result has exactly one pair for that key, and its value is the array of the key's
  values there, in the order of the text. A key that occurs once keeps its one value as
  a string; a key that does not occur has no pair.
\<close>

theorem C9_repeated_key_accumulates:
  "(2 \<le> length (values_of k (textual_pairs unescape s)) \<longrightarrow>
      filter (\<lambda>p. fst p = k) (normalizeRequestParams unescape (PString s))
        = [(k, JArr (map JStr (values_of k (textual_pairs unescape s))))])
   \<and> (\<forall>v. values_of k (textual_pairs unescape s) = [v] \<longrightarrow>
      filter (\<lambda>p. fst p = k) (normalizeRequestParams unescape (PString s)) = [(k, JStr v)])
   \<and> (values_of k (textual_pairs unescape s) = [] \<longrightarrow>
      filter (\<lambda>p. fst p = k) (normalizeRequestParams unescape (PString s)) = [])"
proof -
  have "2 \<le> length vs \<Longrightarrow> held vs = Some (JArr (map JStr vs))" for vs
    by (cases vs rule: held.cases) simp_all
  then show ?thesis unfolding pairs_of_key by auto
qed

theorem C9_repeated_key_accumulates_witness:
  "values_of ''a'' (textual_pairs id ''a=1&b=x&a=2'') = [''1'', ''2'']
   \<and> filter (\<lambda>p. fst p = ''a'') (normalizeRequestParams id (PString ''a=1&b=x&a=2''))
       = [(''a'', JArr [JStr ''1'', JStr ''2''])]
   \<and> filter (\<lambda>p. fst p = ''b'') (normalizeRequestParams id (PString ''a=1&b=x&a=2''))
       = [(''b'', JStr ''x'')]"
proof -
  have a: "values_of ''a'' (textual_pairs id ''a=1&b=x&a=2'') = [''1'', ''2'']"
    by (simp add: values_of_def textual_pairs_def maxKeys_def segment_pair_def decodeStr_def)
  have b: "values_of ''b'' (textual_pairs id ''a=1&b=x&a=2'') = [''x'']"
    by (simp add: values_of_def textual_pairs_def maxKeys_def segment_pair_def decodeStr_def)
  from C9_repeated_key_accumulates [of "''a''" id "''a=1&b=x&a=2''"]
    C9_repeated_key_accumulates [of "''b''" id "''a=1&b=x&a=2''"] a b
  show ?thesis by simp
qed

lemma split_on_repeat:
  "split_on CHR ''&'' (concat (replicate n ''a=1&'') @ rest)
     = replicate n ''a=1'' @ split_on CHR ''&'' rest"
  by (induction n) simp_all

lemma add_pair_repeat:
  "foldl add_pair [] (replicate (n + 2) (k, v)) = [(k, JArr (replicate (n + 2) (JStr v)))]"
proof (induction n)
  case 0
  show ?case by (simp add: numeral_2_eq_2 add_pair_def addKeyValue_def set_prop_def)
next
  case (Suc n)
  have "replicate (Suc n + 2) (k, v) = replicate (n + 2) (k, v) @ [(k, v)]"
    by (simp add: replicate_append_same)
  moreover have "replicate (n + 2) (JStr v) @ [JStr v] = replicate (Suc n + 2) (JStr v)"
    by (simp add: replicate_append_same)
  ultimately show ?case
    using Suc by (simp add: add_pair_def addKeyValue_def set_prop_def del: replicate.simps)
qed

text \<open>
  A string of 1001 pairs of one key: the value of the last pair, past the limit of
  \<^verbatim>\<open>querystring.parse\<close>, is not in the array.
\<close>

theorem C9_beyond_maxKeys:
  "normalizeRequestParams id (PString (concat (replicate 1000 ''a=1&'') @ ''a=2''))
     = [(''a'', JArr (replicate 1000 (JStr ''1'')))]"
proof -
  let ?s = "concat (replicate 1000 ''a=1&'') @ ''a=2''"
  have tp: "textual_pairs id ?s = replicate (998 + 2) (''a'', ''1'')"
    by (simp add: textual_pairs_def maxKeys_def split_on_repeat segment_pair_def decodeStr_def)
  have "querystring_parse id ?s = [(''a'', JArr (replicate (998 + 2) (JStr ''1'')))]"
    unfolding querystring_parse_pairs tp by (rule add_pair_repeat)
  then show ?thesis
    by (simp add: object_pairs_def Object_keys_def get_prop_def)
qed

section \<open>What a run does\<close>

lemma request_by_gate:
  "request z e m f opts st =
     (case auth_gate z e m f st of
        Inl (err, st2) \<Rightarrow> (Inl err, st2)
      | Inr st2 \<Rightarrow> request_main z e m f opts st2)"
  by (simp add: request.simps auth_gate_def gate_fires_def split: prod.splits sum.splits)

lemma gate_expired_frame:
  "st_events (snd (gate_expired e st)) = st_events st"
  "st_config (snd (gate_expired e st)) = st_config st"
  "st_store (snd (gate_expired e st)) = st_store st"
  by (simp_all add: gate_expired_def Date_now_def split: option.splits)

lemma gate_expired_value:
  "fst (gate_expired e st)
     = (case st_config st of
          None \<Rightarrow> True
        | Some c \<Rightarrow> isTokenExpired c (env_clock e (st_ticks st)))"
  by (simp add: gate_expired_def isTokenExpired_def Date_now_def split: option.splits)

lemma fetchConfig_events:
  "st_events (snd (fetchConfig z e st))
     = st_events st @ [Exchanged \<lparr> req_method = ''GET'', req_url = z_url z @ ''/?mode=getconfig'',
                                   req_body = NoBody, req_cookie = None \<rparr>]"
  by (simp add: fetchConfig_def Date_now_def Let_def split: sum.splits option.splits)

lemma fetchConfig_config:
  "fetchConfig z e st = (Inr c, st1) \<Longrightarrow> st_config st1 = Some c"
  by (auto simp: fetchConfig_def Date_now_def Let_def split: sum.splits option.splits)

lemma renew_and_store_frame:
  "st_events (renew_and_store z e c st) = st_events st"
  "st_config (renew_and_store z e c st) = Some (renewToken c (env_clock e (st_ticks st)))"
  by (simp_all add: renew_and_store_def Date_now_def Let_def)

lemma renew_and_store_store:
  "st_store (renew_and_store z e c st)
     = (if z_preserveToken z
        then (st_store st)(z_sessionName z \<mapsto> serialize (renewToken c (env_clock e (st_ticks st))))
        else st_store st)"
  by (simp add: renew_and_store_def Date_now_def Let_def)

lemma request_main_events:
  "\<exists>rest. st_events (snd (request_main z e m f opts st)) = st_events st @ rest
          \<and> LoginCalled \<notin> set rest \<and> length rest \<le> 1"
  by (auto simp: request_main_def Let_def renew_and_store_frame
      split: option.splits sum.splits)

lemma request_main_config:
  "st_config st \<noteq> None \<Longrightarrow> st_config (snd (request_main z e m f opts st)) \<noteq> None"
  by (auto simp: request_main_def Let_def renew_and_store_frame
      split: option.splits sum.splits)

lemma login_by_main:
  "login z e st =
     (case fetchConfig z e (st\<lparr> st_events := st_events st @ [LoginCalled] \<rparr>) of
        (Inl err, st1) \<Rightarrow> (Inl err, st1)
      | (Inr config, st1) \<Rightarrow>
          request_main z e ''user'' ''login'' (login_options z) (snd (gate_expired e st1)))"
  by (simp add: login.simps request_by_gate auth_gate_def gate_fires_def toLowerCase_def
      lower_char_def split: prod.splits sum.splits)

lemma login_never_gated: "\<not> gate_fires e ''user'' ''login'' st"
  by (simp add: gate_fires_def toLowerCase_def lower_char_def)

lemma login_events:
  "\<exists>rest. st_events (snd (login z e st)) = st_events st @ LoginCalled # rest
          \<and> LoginCalled \<notin> set rest"
proof (cases "fetchConfig z e (st\<lparr> st_events := st_events st @ [LoginCalled] \<rparr>)")
  case (Pair res st1)
  have ev1: "st_events st1 = st_events st @ [LoginCalled]
      @ [Exchanged \<lparr> req_method = ''GET'', req_url = z_url z @ ''/?mode=getconfig'',
                     req_body = NoBody, req_cookie = None \<rparr>]"
    using fetchConfig_events [of z e "st\<lparr> st_events := st_events st @ [LoginCalled] \<rparr>"] Pair
    by simp
  show ?thesis
  proof (cases res)
    case (Inl err)
    with Pair ev1 show ?thesis by (simp add: login_by_main)
  next
    case (Inr c)
    let ?g = "snd (gate_expired e st1)"
    obtain rest where r: "st_events (snd (request_main z e ''user'' ''login'' (login_options z) ?g))
        = st_events ?g @ rest" "LoginCalled \<notin> set rest"
      using request_main_events by blast
    with Pair Inr ev1 show ?thesis
      by (simp add: login_by_main gate_expired_frame)
  qed
qed

lemma login_config:
  "fst (login z e st) = Inr r \<Longrightarrow> st_config (snd (login z e st)) \<noteq> None"
proof (cases "fetchConfig z e (st\<lparr> st_events := st_events st @ [LoginCalled] \<rparr>)")
  case (Pair res st1)
  assume ok: "fst (login z e st) = Inr r"
  show ?thesis
  proof (cases res)
    case (Inl err)
    with Pair ok show ?thesis by (simp add: login_by_main)
  next
    case (Inr c)
    with Pair have "st_config st1 = Some c" by (simp add: fetchConfig_config)
    then have "st_config (snd (gate_expired e st1)) \<noteq> None" by (simp add: gate_expired_frame)
    then have "st_config (snd (request_main z e ''user'' ''login'' (login_options z)
        (snd (gate_expired e st1)))) \<noteq> None"
      by (rule request_main_config)
    with Pair Inr show ?thesis by (simp add: login_by_main)
  qed
qed

lemma request_main_renews:
  assumes "request_main z e ''user'' ''login'' opts g = (Inr r, st')" and "status r = 1"
  shows "\<exists>c req. st_config g = Some c
           \<and> st' = renew_and_store z e c (g\<lparr> st_events := st_events g @ [Exchanged req] \<rparr>)"
  using assms
  by (auto simp: request_main_def Let_def split: option.splits sum.splits if_splits)

lemma request_main_keeps:
  assumes "m @ ''/'' @ f \<noteq> ''user/login'' \<or> (\<forall>r. fst (request_main z e m f opts g) = Inr r \<longrightarrow> status r \<noteq> 1)"
  shows "st_config (snd (request_main z e m f opts g)) = st_config g
         \<and> st_store (snd (request_main z e m f opts g)) = st_store g"
  using assms
  by (auto simp: request_main_def Let_def split: option.splits sum.splits if_splits)


subsection \<open>The sample run\<close>

lemmas json_defs =
  JSON_parse_def lex_finish_def lex_idle_def lex_escape_def number_ok_def number_token_def

lemmas run_defs =
  request_main_def fetchConfig_def gate_expired_def Date_now_def renew_and_store_def
  read_response_def normalizeResponse_def decode_data_def apply_fields_def isObject_def
  prop_of_def nullish_def truthy_def createUrl_def zentao_requestType_def encode_data_def
  flatten_form_def login_options_def login_convertor_def post_options_def get_options_def
  builder_options_def useConverter_def set_method_def module_builder_def exchanges_def
  isTokenExpired_def renewToken_def tokenAuth_def serialize_def toLowerCase_def
  lower_char_def Let_def

lemma demo_login:
  "login demo_zentao demo_env fresh_state =
     (Inr \<lparr> status = 1, msg = JStr ''success'', result = JObj [] \<rparr>,
      \<lparr> st_config = Some (renewToken (ZentaoConfig_new demo_payload 1615098427000) 1615098428000),
        st_store = [z_sessionName demo_zentao \<mapsto>
            serialize (renewToken (ZentaoConfig_new demo_payload 1615098427000) 1615098428000)],
        st_events =
          [LoginCalled,
           Exchanged \<lparr> req_method = ''GET'',
                       req_url = ''https://pro.demo.zentao.net//?mode=getconfig'',
                       req_body = NoBody, req_cookie = None \<rparr>,
           Exchanged \<lparr> req_method = ''POST'',
                       req_url = ''https://pro.demo.zentao.net/user-login.json'',
                       req_body = FormBody [(''account'', JStr ''demo''),
                                            (''password'', JStr ''123456'')],
                       req_cookie = Some ''zentaosid=6fudr187np6d82rj23srkqt1r6'' \<rparr>],
        st_ticks = 2 \<rparr>)"
  by (simp add: login_by_main run_defs demo_env_def fresh_state_def demo_zentao_simps
      config_defs json_defs qs_defs)

lemma demo_gate_fires: "gate_fires demo_env ''product'' ''all'' fresh_state"
  by (simp add: gate_fires_def gate_expired_def fresh_state_def toLowerCase_def lower_char_def)

lemma demo_gate_state: "snd (gate_expired demo_env fresh_state) = fresh_state"
  by (simp add: gate_expired_def fresh_state_def)

lemma demo_request_product:
  "request demo_zentao demo_env ''product'' ''all'' product_all fresh_state
     = request_main demo_zentao demo_env ''product'' ''all'' product_all
         (snd (login demo_zentao demo_env fresh_state))"
  by (simp add: request_by_gate auth_gate_def demo_gate_fires demo_gate_state demo_login)

lemma handshaken_eq:
  "handshaken =
     \<lparr> st_config = Some (ZentaoConfig_new demo_payload 1615098427000), st_store = Map.empty,
       st_events = [Exchanged \<lparr> req_method = ''GET'',
                       req_url = ''https://pro.demo.zentao.net//?mode=getconfig'',
                       req_body = NoBody, req_cookie = None \<rparr>],
       st_ticks = 1 \<rparr>"
  by (simp add: handshaken_def run_defs demo_env_def fresh_state_def demo_zentao_simps)

lemma demo_login_request:
  "fst (request demo_zentao demo_env ''user'' ''login'' (login_options demo_zentao) handshaken)
     = Inr \<lparr> status = 1, msg = JStr ''success'', result = JObj [] \<rparr>"
  by (simp add: request_by_gate auth_gate_def login_never_gated handshaken_eq
      run_defs demo_env_def demo_zentao_simps config_defs json_defs qs_defs)

lemma session_open_quiet: "\<not> gate_fires demo_env ''product'' ''all'' session_open"
  by (simp add: gate_fires_def session_open_def fresh_state_def run_defs demo_env_def
      config_defs)


section \<open>The authentication gate\<close>

text \<open>
  C5. The gate fires exactly when no config is loaded or the token of the loaded config
  is expired, and the operation is not \<^verbatim>\<open>user/login\<close> in any letter case. When it
  fires, the history of the call starts with one entry into \<^verbatim>\<open>login()\<close> and has no
  other: every exchange of the call, the main one included, comes after it. Otherwise
  the call does not enter \<^verbatim>\<open>login()\<close>. When the gate is passed and leaves no config,
  \<^verbatim>\<open>request\<close> throws the configuration error in the state the gate left, and the call
  has made no exchange.
\<close>

theorem C5_auth_gate:
  "(gate_fires e m f st \<longleftrightarrow>
      (st_config st = None
         \<or> (\<exists>c. st_config st = Some c \<and> isTokenExpired c (env_clock e (st_ticks st))))
      \<and> toLowerCase (m @ ''/'' @ f) \<noteq> ''user/login'')
   \<and> (gate_fires e m f st \<longrightarrow>
      (\<exists>rest. st_events (snd (request z e m f opts st)) = st_events st @ LoginCalled # rest
              \<and> LoginCalled \<notin> set rest))
   \<and> (\<not> gate_fires e m f st \<longrightarrow>
      (\<exists>rest. st_events (snd (request z e m f opts st)) = st_events st @ rest
              \<and> LoginCalled \<notin> set rest))
   \<and> (\<forall>st2. auth_gate z e m f st = Inr st2 \<and> st_config st2 = None \<longrightarrow>
        (\<exists>message. request z e m f opts st = (Inl (ConfigError message), st2))
        \<and> st_events st2 = st_events st)"
proof (intro conjI impI allI)
  show "gate_fires e m f st \<longleftrightarrow>
      (st_config st = None
         \<or> (\<exists>c. st_config st = Some c \<and> isTokenExpired c (env_clock e (st_ticks st))))
      \<and> toLowerCase (m @ ''/'' @ f) \<noteq> ''user/login''"
    by (cases "st_config st") (simp_all add: gate_fires_def gate_expired_value)
next
  assume fires: "gate_fires e m f st"
  let ?g = "snd (gate_expired e st)"
  obtain rest where l: "st_events (snd (login z e ?g)) = st_events ?g @ LoginCalled # rest"
      "LoginCalled \<notin> set rest"
    using login_events by blast
  obtain res st2 where p: "login z e ?g = (res, st2)" by (cases "login z e ?g")
  show "\<exists>rest. st_events (snd (request z e m f opts st)) = st_events st @ LoginCalled # rest
              \<and> LoginCalled \<notin> set rest"
  proof (cases res)
    case (Inl err)
    with fires p l show ?thesis
      by (simp add: request_by_gate auth_gate_def gate_expired_frame)
  next
    case (Inr r)
    obtain rest' where m: "st_events (snd (request_main z e m f opts st2)) = st_events st2 @ rest'"
        "LoginCalled \<notin> set rest'"
      using request_main_events by blast
    with fires p l Inr show ?thesis
      by (simp add: request_by_gate auth_gate_def gate_expired_frame)
  qed
next
  assume "\<not> gate_fires e m f st"
  then have "request z e m f opts st = request_main z e m f opts (snd (gate_expired e st))"
    by (simp add: request_by_gate auth_gate_def)
  moreover obtain rest where "st_events (snd (request_main z e m f opts (snd (gate_expired e st))))
      = st_events (snd (gate_expired e st)) @ rest" "LoginCalled \<notin> set rest"
    using request_main_events by blast
  ultimately show "\<exists>rest. st_events (snd (request z e m f opts st)) = st_events st @ rest
              \<and> LoginCalled \<notin> set rest"
    by (simp add: gate_expired_frame)
next
  fix st2
  assume a: "auth_gate z e m f st = Inr st2 \<and> st_config st2 = None"
  then show "\<exists>message. request z e m f opts st = (Inl (ConfigError message), st2)"
    by (simp add: request_by_gate request_main_def)
  show "st_events st2 = st_events st"
  proof (cases "gate_fires e m f st")
    case True
    obtain res st3 where p: "login z e (snd (gate_expired e st)) = (res, st3)"
      by (cases "login z e (snd (gate_expired e st))")
    with a True obtain r where "res = Inr r" "st3 = st2"
      by (auto simp: auth_gate_def split: sum.splits)
    with p login_config [of z e "snd (gate_expired e st)" r] a show ?thesis by simp
  next
    case False
    with a show ?thesis by (auto simp: auth_gate_def gate_expired_frame)
  qed
qed

theorem C5_auth_gate_witness:
  "gate_fires demo_env ''product'' ''all'' fresh_state
   \<and> (\<exists>rest. st_events (snd (request demo_zentao demo_env ''product'' ''all'' product_all
                               fresh_state))
               = st_events fresh_state @ LoginCalled # rest \<and> LoginCalled \<notin> set rest)
   \<and> auth_gate demo_zentao demo_env ''user'' ''login'' fresh_state = Inr fresh_state
   \<and> st_config fresh_state = None
   \<and> (\<exists>message. request demo_zentao demo_env ''user'' ''login'' product_all fresh_state
                   = (Inl (ConfigError message), fresh_state))"
proof -
  have g: "auth_gate demo_zentao demo_env ''user'' ''login'' fresh_state = Inr fresh_state"
    by (simp add: auth_gate_def gate_fires_def gate_expired_def fresh_state_def toLowerCase_def
        lower_char_def)
  have n: "st_config fresh_state = None" by (simp add: fresh_state_def)
  from C5_auth_gate [of demo_env "''product''" "''all''" fresh_state demo_zentao product_all]
    C5_auth_gate [of demo_env "''user''" "''login''" fresh_state demo_zentao product_all]
    demo_gate_fires g n
  show ?thesis by blast
qed


section \<open>Renewing the token after a login\<close>

text \<open>
  C8 (as amended). When a call of \<^verbatim>\<open>request\<close> for exactly \<^verbatim>\<open>user/login\<close> returns a
  result of status 1, the config it found is renewed: its token is the session name,
  \<^verbatim>\<open>=\<close> and the session id, its update time is the clock's reading, and with token
  persistence the serialized renewed config is in the store under the session label
  (without it the store is as before). When the gate does not call \<^verbatim>\<open>login()\<close>, a call
  for another operation, or one that does not return status 1, leaves config and store
  as they were.
\<close>

theorem C8_login_renews_token:
  "(fst (request z e ''user'' ''login'' opts st) = Inr r \<and> status r = 1 \<longrightarrow>
      (\<exists>c. st_config st = Some c
          \<and> st_config (snd (request z e ''user'' ''login'' opts st))
              = Some (renewToken c (env_clock e (st_ticks (snd (gate_expired e st)))))
          \<and> token (renewToken c (env_clock e (st_ticks (snd (gate_expired e st)))))
              = sessionName c @ ''='' @ or_default (sessionID c) []
          \<and> priv_tokenUpdateTime (renewToken c (env_clock e (st_ticks (snd (gate_expired e st)))))
              = Some (env_clock e (st_ticks (snd (gate_expired e st))))
          \<and> st_store (snd (request z e ''user'' ''login'' opts st))
              = (if z_preserveToken z
                 then (st_store st)(z_sessionName z \<mapsto>
                        serialize (renewToken c (env_clock e (st_ticks (snd (gate_expired e st))))))
                 else st_store st)))
   \<and> (\<not> gate_fires e m f st
        \<and> (m @ ''/'' @ f \<noteq> ''user/login''
             \<or> (\<forall>r'. fst (request z e m f opts st) = Inr r' \<longrightarrow> status r' \<noteq> 1)) \<longrightarrow>
      st_config (snd (request z e m f opts st)) = st_config st
      \<and> st_store (snd (request z e m f opts st)) = st_store st)"
proof (rule conjI; rule impI)
  let ?g = "snd (gate_expired e st)"
  assume a: "fst (request z e ''user'' ''login'' opts st) = Inr r \<and> status r = 1"
  have eq: "request z e ''user'' ''login'' opts st = request_main z e ''user'' ''login'' opts ?g"
    by (simp add: request_by_gate auth_gate_def login_never_gated)
  obtain st' where p: "request_main z e ''user'' ''login'' opts ?g = (Inr r, st')"
    using a eq by (cases "request_main z e ''user'' ''login'' opts ?g") simp
  from request_main_renews [OF p] a obtain c req where c: "st_config ?g = Some c"
    and st': "st' = renew_and_store z e c (?g\<lparr> st_events := st_events ?g @ [Exchanged req] \<rparr>)"
    by blast
  show "\<exists>c. st_config st = Some c
          \<and> st_config (snd (request z e ''user'' ''login'' opts st))
              = Some (renewToken c (env_clock e (st_ticks ?g)))
          \<and> token (renewToken c (env_clock e (st_ticks ?g)))
              = sessionName c @ ''='' @ or_default (sessionID c) []
          \<and> priv_tokenUpdateTime (renewToken c (env_clock e (st_ticks ?g)))
              = Some (env_clock e (st_ticks ?g))
          \<and> st_store (snd (request z e ''user'' ''login'' opts st))
              = (if z_preserveToken z
                 then (st_store st)(z_sessionName z \<mapsto>
                        serialize (renewToken c (env_clock e (st_ticks ?g))))
                 else st_store st)"
    using c eq p st'
    by (simp add: gate_expired_frame renew_and_store_frame renew_and_store_store
        renewToken_def token_def tokenAuth_def or_default_def)
next
  let ?g = "snd (gate_expired e st)"
  assume a: "\<not> gate_fires e m f st
        \<and> (m @ ''/'' @ f \<noteq> ''user/login''
             \<or> (\<forall>r'. fst (request z e m f opts st) = Inr r' \<longrightarrow> status r' \<noteq> 1))"
  then have eq: "request z e m f opts st = request_main z e m f opts ?g"
    by (simp add: request_by_gate auth_gate_def)
  with a have "m @ ''/'' @ f \<noteq> ''user/login''
      \<or> (\<forall>r'. fst (request_main z e m f opts ?g) = Inr r' \<longrightarrow> status r' \<noteq> 1)"
    by simp
  from request_main_keeps [OF this] eq
  show "st_config (snd (request z e m f opts st)) = st_config st
      \<and> st_store (snd (request z e m f opts st)) = st_store st"
    by (simp add: gate_expired_frame)
qed

theorem C8_login_renews_token_witness:
  "fst (request demo_zentao demo_env ''user'' ''login'' (login_options demo_zentao) handshaken)
     = Inr \<lparr> status = 1, msg = JStr ''success'', result = JObj [] \<rparr>
   \<and> map_option token
        (st_config (snd (request demo_zentao demo_env ''user'' ''login''
                           (login_options demo_zentao) handshaken)))
     = Some ''zentaosid=6fudr187np6d82rj23srkqt1r6''
   \<and> \<not> gate_fires demo_env ''product'' ''all'' session_open
   \<and> st_config (snd (request demo_zentao demo_env ''product'' ''all'' product_all session_open))
     = st_config session_open"
proof -
  let ?r = "\<lparr> status = 1, msg = JStr ''success'', result = JObj [] \<rparr>"
  have ok: "fst (request demo_zentao demo_env ''user'' ''login'' (login_options demo_zentao)
      handshaken) = Inr ?r \<and> status ?r = 1"
    by (simp add: demo_login_request)
  have c: "st_config handshaken = Some (ZentaoConfig_new demo_payload 1615098427000)"
    by (simp add: handshaken_eq)
  from C8_login_renews_token [of demo_zentao demo_env "login_options demo_zentao" handshaken ?r
      "''product''" "''all''"] ok c
  have "map_option token
        (st_config (snd (request demo_zentao demo_env ''user'' ''login''
                           (login_options demo_zentao) handshaken)))
     = Some ''zentaosid=6fudr187np6d82rj23srkqt1r6''"
    by (auto simp: config_defs)
  moreover
  from C8_login_renews_token [of demo_zentao demo_env product_all session_open ?r
      "''product''" "''all''"] session_open_quiet
  have "st_config (snd (request demo_zentao demo_env ''product'' ''all'' product_all session_open))
     = st_config session_open"
    by simp
  ultimately show ?thesis using ok session_open_quiet by simp
qed


text \<open>
  A call for \<^verbatim>\<open>product/all\<close> on an instance with no config: the gate logs in, and the
  call ends with a token that was not there before.
\<close>

theorem C8_gate_changes_token:
  "st_config fresh_state = None
   \<and> map_option token
       (st_config (snd (request demo_zentao demo_env ''product'' ''all'' product_all fresh_state)))
     = Some ''zentaosid=6fudr187np6d82rj23srkqt1r6''"
proof -
  have "st_config (snd (request demo_zentao demo_env ''product'' ''all'' product_all fresh_state))
      = st_config (snd (login demo_zentao demo_env fresh_state))"
    unfolding demo_request_product by (simp add: request_main_keeps)
  then have "map_option token
       (st_config (snd (request demo_zentao demo_env ''product'' ''all'' product_all fresh_state)))
     = Some ''zentaosid=6fudr187np6d82rj23srkqt1r6''"
    by (simp add: demo_login token_def renewToken_def tokenAuth_def config_defs)
  moreover have "st_config fresh_state = None" by (simp add: fresh_state_def)
  ultimately show ?thesis by simp
qed


section \<open>Normalizing the response\<close>

lemma show_nat_digits: "\<forall>c \<in> set (show_nat n). isDigit c"
proof (induction n rule: show_nat.induct)
  case (1 n)
  show ?case
  proof (cases "n < 10")
    case True
    then show ?thesis by (subst show_nat.simps) (simp add: isDigit_def)
  next
    case False
    have "n mod 10 < 10" by simp
    then have "isDigit (char_of (48 + n mod 10))"
      by (simp add: isDigit_def)
    with 1 False show ?thesis by (subst show_nat.simps) simp
  qed
qed

lemma not_an_index:
  assumes "\<exists>c \<in> set k. \<not> isDigit c"
  shows "index_prop n k = None"
  using assms show_nat_digits by (auto simp: index_prop_def find_None_iff)

lemma array_fields:
  "prop_of (JArr xs) ''data'' = JUndefined"
  "prop_of (JArr xs) ''status'' = JUndefined"
  "prop_of (JArr xs) ''result'' = JUndefined"
  "prop_of (JArr xs) ''message'' = JUndefined"
  by (simp_all add: prop_of_def not_an_index isDigit_def)

lemma get_after_set:
  "get_prop (set_prop kvs k v) k' = (if k' = k then v else get_prop kvs k')"
  by (simp add: get_prop_def set_prop_def update_conv)

lemma normalize_object_plain:
  assumes "\<forall>s. get_prop kvs ''data'' = JStr s \<longrightarrow> \<not> json_like s"
  shows "normalizeResponse (JObj kvs)
     = Inr (JObj kvs,
            \<lparr> status = (if succeeded kvs then 1 else 0), msg = message_of kvs,
              result = (if nullish (get_prop kvs ''data'') then get_prop kvs ''result''
                        else get_prop kvs ''data'') \<rparr>)"
  using assms
  by (auto simp: normalizeResponse_def decode_data_def isObject_def prop_of_def json_like_def
      succeeded_def message_of_def split: jsval.splits)

lemma normalize_object_decoded:
  assumes "get_prop kvs ''data'' = JStr s" and "json_like s"
  shows "normalizeResponse (JObj kvs)
     = (case JSON_parse s of
          Parsed v \<Rightarrow>
            Inr (JObj (set_prop kvs ''data'' v),
                 \<lparr> status = (if succeeded kvs then 1 else 0), msg = message_of kvs,
                   result = (if nullish v then get_prop kvs ''result'' else v) \<rparr>)
        | Malformed \<Rightarrow> Inl SyntaxError
        | Unmodelled \<Rightarrow> Inl OutOfModel)"
  using assms
  by (auto simp: normalizeResponse_def decode_data_def isObject_def prop_of_def json_like_def
      succeeded_def message_of_def get_after_set split: parse_result.splits)

lemma normalize_array:
  "normalizeResponse (JArr xs)
     = Inr (JArr xs, \<lparr> status = 0, msg = JStr ''error'', result = JUndefined \<rparr>)"
  by (simp add: normalizeResponse_def decode_data_def isObject_def array_fields nullish_def)

lemma normalize_other:
  "\<not> isObject body \<Longrightarrow>
   normalizeResponse body = Inr (body, \<lparr> status = 0, msg = JStr ''error'', result = body \<rparr>)"
  by (simp add: normalizeResponse_def)

lemma request_main_returns:
  assumes "st_config st = Some c" and "o_resultConvertor opts = None"
    and "o_name opts \<noteq> None \<or> f \<noteq> []"
    and "env_api e (exchanges st) = Inr body"
    and "normalizeResponse body = Inr (rd, r)"
  shows "fst (request_main z e m f opts st) = Inr (apply_fields (o_fields opts) r)"
  using assms
  by (auto simp: request_main_def read_response_def createUrl_def Let_def split: option.splits)


text \<open>
  C6 (as amended). For a body that is a JSON object: when its \<^verbatim>\<open>data\<close> field is not a
  string that starts with \<^verbatim>\<open>[\<close> or \<^verbatim>\<open>{\<close>, the result has status 1 exactly when the
  \<^verbatim>\<open>status\<close> or the \<^verbatim>\<open>result\<close> field is the string \<^verbatim>\<open>success\<close> (0 otherwise), the message
  field or else \<^verbatim>\<open>success\<close>/\<^verbatim>\<open>error\<close> as \<^verbatim>\<open>msg\<close>, and the \<^verbatim>\<open>data\<close> field or else the
  \<^verbatim>\<open>result\<close> field as \<^verbatim>\<open>result\<close>; when it is such a string and the string is JSON, the
  same holds with the decoded value in the place of the \<^verbatim>\<open>data\<close> field; when the string
  is not JSON, the \<^verbatim>\<open>SyntaxError\<close> of \<^verbatim>\<open>JSON.parse\<close> is thrown. An array body is an object
  with none of these fields: status 0, \<^verbatim>\<open>error\<close>, and an undefined \<^verbatim>\<open>result\<close>. Any other
  body gives status 0, \<^verbatim>\<open>error\<close> and the body itself. Once the response is normalized,
  \<^verbatim>\<open>request\<close> (with no convertor) returns the result as data, whatever its status.
\<close>

theorem C6_response_normalization:
  "((\<forall>s. get_prop kvs ''data'' = JStr s \<longrightarrow> \<not> json_like s) \<longrightarrow>
      normalizeResponse (JObj kvs)
        = Inr (JObj kvs,
               \<lparr> status = (if succeeded kvs then 1 else 0), msg = message_of kvs,
                 result = (if nullish (get_prop kvs ''data'') then get_prop kvs ''result''
                           else get_prop kvs ''data'') \<rparr>))
   \<and> (get_prop kvs ''data'' = JStr s \<and> json_like s \<and> JSON_parse s = Parsed v \<longrightarrow>
      normalizeResponse (JObj kvs)
        = Inr (JObj (set_prop kvs ''data'' v),
               \<lparr> status = (if succeeded kvs then 1 else 0), msg = message_of kvs,
                 result = (if nullish v then get_prop kvs ''result'' else v) \<rparr>))
   \<and> (get_prop kvs ''data'' = JStr s \<and> json_like s \<and> JSON_parse s = Malformed \<longrightarrow>
      normalizeResponse (JObj kvs) = Inl SyntaxError)
   \<and> normalizeResponse (JArr xs)
        = Inr (JArr xs, \<lparr> status = 0, msg = JStr ''error'', result = JUndefined \<rparr>)
   \<and> (\<not> isObject body \<longrightarrow>
      normalizeResponse body = Inr (body, \<lparr> status = 0, msg = JStr ''error'', result = body \<rparr>))
   \<and> (st_config st = Some c \<and> o_resultConvertor opts = None \<and> (o_name opts \<noteq> None \<or> f \<noteq> [])
        \<and> env_api e (exchanges st) = Inr resp \<and> normalizeResponse resp = Inr (rd, r) \<longrightarrow>
      fst (request_main z e m f opts st) = Inr (apply_fields (o_fields opts) r))"
proof -
  have a: "(\<forall>s. get_prop kvs ''data'' = JStr s \<longrightarrow> \<not> json_like s) \<longrightarrow>
      normalizeResponse (JObj kvs)
        = Inr (JObj kvs,
               \<lparr> status = (if succeeded kvs then 1 else 0), msg = message_of kvs,
                 result = (if nullish (get_prop kvs ''data'') then get_prop kvs ''result''
                           else get_prop kvs ''data'') \<rparr>)"
    using normalize_object_plain by blast
  have b: "get_prop kvs ''data'' = JStr s \<and> json_like s \<and> JSON_parse s = Parsed v \<longrightarrow>
      normalizeResponse (JObj kvs)
        = Inr (JObj (set_prop kvs ''data'' v),
               \<lparr> status = (if succeeded kvs then 1 else 0), msg = message_of kvs,
                 result = (if nullish v then get_prop kvs ''result'' else v) \<rparr>)"
    by (simp add: normalize_object_decoded)
  have c: "get_prop kvs ''data'' = JStr s \<and> json_like s \<and> JSON_parse s = Malformed \<longrightarrow>
      normalizeResponse (JObj kvs) = Inl SyntaxError"
    by (simp add: normalize_object_decoded)
  have d: "st_config st = Some c \<and> o_resultConvertor opts = None \<and> (o_name opts \<noteq> None \<or> f \<noteq> [])
        \<and> env_api e (exchanges st) = Inr resp \<and> normalizeResponse resp = Inr (rd, r) \<longrightarrow>
      fst (request_main z e m f opts st) = Inr (apply_fields (o_fields opts) r)"
    using request_main_returns by blast
  from a b c d normalize_array normalize_other show ?thesis by blast
qed


theorem C6_response_normalization_witness:
  "normalizeResponse (JObj [(''result'', JStr ''fail''), (''message'', JStr ''denied'')])
     = Inr (JObj [(''result'', JStr ''fail''), (''message'', JStr ''denied'')],
            \<lparr> status = 0, msg = JStr ''denied'', result = JStr ''fail'' \<rparr>)
   \<and> normalizeResponse (JObj [(''status'', JStr ''success''), (''data'', JStr ''[1]'')])
     = Inr (JObj [(''status'', JStr ''success''), (''data'', JArr [JNum 1])],
            \<lparr> status = 1, msg = JStr ''success'', result = JArr [JNum 1] \<rparr>)
   \<and> normalizeResponse (JObj [(''status'', JStr ''fail''), (''data'', JStr ''[error] not found'')])
     = Inl SyntaxError
   \<and> normalizeResponse (JStr ''<html>'')
     = Inr (JStr ''<html>'', \<lparr> status = 0, msg = JStr ''error'', result = JStr ''<html>'' \<rparr>)
   \<and> fst (request_main demo_zentao offline_env ''product'' ''all'' product_all session_open)
     = Inr \<lparr> status = 1, msg = JStr ''success'', result = JObj [] \<rparr>"
proof -
  have p1: "JSON_parse ''[1]'' = Parsed (JArr [JNum 1])"
    by (simp add: json_defs isDigit_def digits_value_def)
  have p2: "JSON_parse ''[error] not found'' = Malformed"
    by (simp add: json_defs isDigit_def)
  have n: "normalizeResponse (JObj [(''status'', JStr ''success''), (''data'', JStr ''{}'')])
      = Inr (JObj [(''status'', JStr ''success''), (''data'', JObj [])],
             \<lparr> status = 1, msg = JStr ''success'', result = JObj [] \<rparr>)"
    by (simp add: run_defs json_defs get_prop_def set_prop_def)
  have r: "st_config session_open
        = Some (renewToken (ZentaoConfig_new demo_payload 1615098427000) 1615098428000)
      \<and> o_resultConvertor product_all = None \<and> o_fields product_all = None
      \<and> env_api offline_env (exchanges session_open)
          = Inr (JObj [(''status'', JStr ''success''), (''data'', JStr ''{}'')])"
    by (simp add: session_open_def fresh_state_def product_all_def offline_env_def demo_env_def
        get_options_def builder_options_def module_builder_def)
  from C6_response_normalization
      [where kvs = "[(''result'', JStr ''fail''), (''message'', JStr ''denied'')]"
         and body = "JStr ''<html>''" and st = session_open and opts = product_all
         and f = "''all''" and e = offline_env and z = demo_zentao and m = "''product''"
         and c = "renewToken (ZentaoConfig_new demo_payload 1615098427000) 1615098428000"
         and resp = "JObj [(''status'', JStr ''success''), (''data'', JStr ''{}'')]"
         and rd = "JObj [(''status'', JStr ''success''), (''data'', JObj [])]"
         and r = "\<lparr> status = 1, msg = JStr ''success'', result = JObj [] \<rparr>"]
    C6_response_normalization
      [where kvs = "[(''status'', JStr ''success''), (''data'', JStr ''[1]'')]"
         and s = "''[1]''" and v = "JArr [JNum 1]"]
    C6_response_normalization
      [where kvs = "[(''status'', JStr ''fail''), (''data'', JStr ''[error] not found'')]"
         and s = "''[error] not found''"]
    p1 p2 n r
  show ?thesis
    by (simp add: get_prop_def json_like_def succeeded_def message_of_def nullish_def
        isObject_def set_prop_def apply_fields_def)
qed

text \<open>
  A server that answers \<^verbatim>\<open>{status: 'fail', data: '[error] not found'}\<close> to a call made
  with a valid token: the call throws instead of returning a result of status 0.
\<close>

theorem C6_malformed_data_is_thrown:
  "fst (request demo_zentao garbled_env ''product'' ''all'' product_all session_open)
     = Inl SyntaxError"
  by (simp add: request_by_gate auth_gate_def gate_fires_def garbled_env_def session_open_def
      fresh_state_def run_defs demo_env_def demo_zentao_simps config_defs json_defs
      product_all_def qs_defs)


end
